theory Spec2Isabelle
  imports Main
begin

section \<open>Python values, text rendering and exceptions\<close>

text \<open>
  The development embeds \<^verbatim>\<open>prepare_dataset\<close> of
  \<^verbatim>\<open>src/diffusionLM/utils/datasetANDtokenizer.py\<close>. Python strings are lists of
  characters with code points below 256; a column value is one of the Python values below
  (only \<^verbatim>\<open>isinstance(v, str)\<close> is ever asked of it).
\<close>

datatype pyval = PNone | PStr string | PInt int | PList "pyval list"

fun is_str :: "pyval \<Rightarrow> bool" where
  "is_str (PStr s) = True"
| "is_str v = False"

text \<open>
  \<^verbatim>\<open>repr\<close> of a string, as the f-strings of the source render a column list and as
  \<^verbatim>\<open>str(KeyError(k))\<close> renders a key: the quote is a single quote unless the string has a
  single quote and no double quote; the quote and the backslash are escaped, tab, newline and
  carriage return have their short escapes, every other non-printable code point is written
  \<^verbatim>\<open>\xNN\<close>.
\<close>

definition hex_digit :: "nat \<Rightarrow> char" where
  "hex_digit n = (if n < 10 then char_of (48 + n) else char_of (87 + n))"

definition py_printable :: "char \<Rightarrow> bool" where
  "py_printable c =
     (let n = (of_char c :: nat) in (32 \<le> n \<and> n < 127) \<or> (161 \<le> n \<and> n \<noteq> 173))"

definition repr_char :: "char \<Rightarrow> char \<Rightarrow> string" where
  "repr_char q c =
     (if c = q \<or> c = CHR 0x5C then [CHR 0x5C, c]
      else if c = CHR 0x09 then [CHR 0x5C, CHR ''t'']
      else if c = CHR 0x0A then [CHR 0x5C, CHR ''n'']
      else if c = CHR 0x0D then [CHR 0x5C, CHR ''r'']
      else if py_printable c then [c]
      else [CHR 0x5C, CHR ''x'', hex_digit (of_char c div 16), hex_digit (of_char c mod 16)])"

definition repr_str :: "string \<Rightarrow> string" where
  "repr_str s =
     (let q = (if CHR 0x27 \<in> set s \<and> CHR 0x22 \<notin> set s then CHR 0x22 else CHR 0x27)
      in q # concat (map (repr_char q) s) @ [q])"

fun join :: "string \<Rightarrow> string list \<Rightarrow> string" where
  "join sep [] = []"
| "join sep [x] = x"
| "join sep (x # y # ys) = x @ sep @ join sep (y # ys)"

definition repr_list :: "string list \<Rightarrow> string" where
  "repr_list xs = ''['' @ join '', '' (map repr_str xs) @ '']''"

text \<open>
  The exceptions that can travel through \<^verbatim>\<open>prepare_dataset\<close> (all subclasses of
  \<^verbatim>\<open>Exception\<close>). \<^verbatim>\<open>DatasetPreparationError\<close> is the class of lines 11-22 and
  carries its message; \<open>KeyError\<close> carries the missing key; the others carry their text.
  \<open>OtherError\<close> stands for any other exception an external library raises.
\<close>

datatype exn =
    DatasetPreparationError string
  | KeyError string
  | IndexError string
  | ValueError string
  | OtherError string

text \<open>\<^verbatim>\<open>str(e)\<close>.\<close>

fun str_exn :: "exn \<Rightarrow> string" where
  "str_exn (DatasetPreparationError message) = message"
| "str_exn (KeyError k) = repr_str k"
| "str_exn (IndexError m) = m"
| "str_exn (ValueError m) = m"
| "str_exn (OtherError m) = m"

section \<open>The external collaborators\<close>

subsection \<open>Tokenizer handle\<close>

text \<open>
  The tokenizer handle of the \<^verbatim>\<open>transformers\<close> library, as far as the source uses
  it: the special-token attributes \<^verbatim>\<open>mask_token\<close> and \<^verbatim>\<open>pad_token\<close>
  (\<open>None\<close> when undefined), the vocabulary with the added tokens, and the unknown token
  that a lookup falls back to.
\<close>

record tokenizer =
  mask_token :: "string option"
  pad_token :: "string option"
  unk_token :: "string option"
  vocab :: "(string \<times> nat) list"

definition convert_tokens_to_ids :: "tokenizer \<Rightarrow> string \<Rightarrow> nat option" where
  "convert_tokens_to_ids t s =
     (case map_of (vocab t) s of
        Some i \<Rightarrow> Some i
      | None \<Rightarrow> (case unk_token t of None \<Rightarrow> None | Some u \<Rightarrow> map_of (vocab t) u))"

definition mask_token_id :: "tokenizer \<Rightarrow> nat option" where
  "mask_token_id t =
     (case mask_token t of None \<Rightarrow> None | Some s \<Rightarrow> convert_tokens_to_ids t s)"

definition pad_token_id :: "tokenizer \<Rightarrow> nat option" where
  "pad_token_id t =
     (case pad_token t of None \<Rightarrow> None | Some s \<Rightarrow> convert_tokens_to_ids t s)"

text \<open>
  \<^verbatim>\<open>add_tokens\<close>: a token the vocabulary does not have yet gets the next free id,
  \<^verbatim>\<open>len(tokenizer)\<close>.
\<close>

definition add_token :: "string \<Rightarrow> (string \<times> nat) list \<Rightarrow> (string \<times> nat) list" where
  "add_token s v = (if map_of v s = None then v @ [(s, length v)] else v)"

text \<open>
  \<^verbatim>\<open>tokenizer.add_special_tokens({'mask_token': s})\<close> and
  \<^verbatim>\<open>tokenizer.add_special_tokens({'pad_token': s})\<close>: the attribute is set and the token
  registered. The handle is mutated in place; the model returns the updated handle.
\<close>

definition add_special_mask_token :: "string \<Rightarrow> tokenizer \<Rightarrow> tokenizer" where
  "add_special_mask_token s t = t\<lparr>mask_token := Some s, vocab := add_token s (vocab t)\<rparr>"

definition add_special_pad_token :: "string \<Rightarrow> tokenizer \<Rightarrow> tokenizer" where
  "add_special_pad_token s t = t\<lparr>pad_token := Some s, vocab := add_token s (vocab t)\<rparr>"

text \<open>
  A handle as the provider builds it: a special token that is defined is part of the
  vocabulary.
\<close>

definition tokenizer_ok :: "tokenizer \<Rightarrow> bool" where
  "tokenizer_ok t =
     ((case mask_token t of None \<Rightarrow> True | Some s \<Rightarrow> map_of (vocab t) s \<noteq> None) \<and>
      (case pad_token t of None \<Rightarrow> True | Some s \<Rightarrow> map_of (vocab t) s \<noteq> None))"

subsection \<open>Datasets\<close>

text \<open>
  A split of the \<^verbatim>\<open>datasets\<close> library is a table: its declared column names and its
  records, each a mapping from column name to value. A dataset is a dictionary from split
  name to split, kept in insertion order.
\<close>

type_synonym row = "(string \<times> pyval) list"

record split =
  column_names :: "string list"
  rows :: "row list"

type_synonym dataset_dict = "(string \<times> split) list"

text \<open>A cell of a record; a cell that holds nothing is a null.\<close>

definition row_get :: "row \<Rightarrow> string \<Rightarrow> pyval" where
  "row_get r c = (case map_of r c of None \<Rightarrow> PNone | Some v \<Rightarrow> v)"

text \<open>\<^verbatim>\<open>dataset[name]\<close> on the dictionary of splits.\<close>

definition get_split :: "dataset_dict \<Rightarrow> string \<Rightarrow> exn + split" where
  "get_split d name = (case map_of d name of None \<Rightarrow> Inl (KeyError name) | Some s \<Rightarrow> Inr s)"

text \<open>\<^verbatim>\<open>split[0]\<close>: the first record, an \<^verbatim>\<open>IndexError\<close> on a split without records.\<close>

definition first_record :: "split \<Rightarrow> exn + row" where
  "first_record s =
     (case rows s of
        [] \<Rightarrow> Inl (IndexError ''Invalid key: 0 is out of bounds for size 0'')
      | r # rs \<Rightarrow> Inr r)"

text \<open>
  A batch handed to a mapped function and the encoding a tokenizer returns for it: both are
  dictionaries from column name to the list of the values of the batch's records.
\<close>

type_synonym encoding = "(string \<times> pyval list) list"

text \<open>\<^verbatim>\<open>examples[c]\<close> on a batch made of the records of a split.\<close>

definition batch_get :: "split \<Rightarrow> string \<Rightarrow> exn + pyval list" where
  "batch_get examples c =
     (if c \<in> set (column_names examples) then Inr (map (\<lambda>r. row_get r c) (rows examples))
      else Inl (KeyError c))"

text \<open>
  The calls whose outcome the program cannot determine are parameters of the model:
  \<^verbatim>\<open>AutoTokenizer.from_pretrained(name)\<close>, \<^verbatim>\<open>load_dataset(name, cache_dir=...)\<close>
  and the tokenizer's call operator on a batch of texts with
  \<^verbatim>\<open>padding="max_length", truncation=True, max_length=..., return_tensors="pt"\<close>.
  Each returns a value or raises.
\<close>

record env =
  from_pretrained :: "string \<Rightarrow> exn + tokenizer"
  load_dataset :: "string \<Rightarrow> string option \<Rightarrow> exn + dataset_dict"
  tokenizer_call :: "tokenizer \<Rightarrow> pyval list \<Rightarrow> int \<Rightarrow> exn + encoding"

text \<open>
  \<^verbatim>\<open>Dataset.map(function, batched=True, num_proc=..., remove_columns=...)\<close> on one
  split. The library refuses a worker count that is not positive, returns a split without
  records untouched apart from the removal, refuses to remove a column the split does not
  have, and otherwise merges what the function returns into the columns that are kept
  (\<^verbatim>\<open>{**kept_inputs, **outputs}\<close>). The
  library cuts the records into batches and spreads them over the workers; the model hands
  the records of the split to the function as one batch.
\<close>

definition nth_default_none :: "pyval list \<Rightarrow> nat \<Rightarrow> pyval" where
  "nth_default_none vs i = (if i < length vs then vs ! i else PNone)"

definition merge_batch :: "split \<Rightarrow> string list \<Rightarrow> encoding \<Rightarrow> split" where
  "merge_batch s removed enc =
     (let kept = filter (\<lambda>c. c \<notin> set removed) (column_names s);
          cols = kept @ filter (\<lambda>k. k \<notin> set kept) (remdups (map fst enc))
      in \<lparr>column_names = cols,
          rows = map (\<lambda>(i, r). map (\<lambda>c. (c, case map_of enc c of
                                               None \<Rightarrow> row_get r c
                                             | Some vs \<Rightarrow> nth_default_none vs i)) cols)
                     (enumerate 0 (rows s))\<rparr>)"

definition missing_columns :: "split \<Rightarrow> string list \<Rightarrow> string list" where
  "missing_columns s removed = filter (\<lambda>c. c \<notin> set (column_names s)) (remdups removed)"

text \<open>\<^verbatim>\<open>Dataset.remove_columns(names)\<close>, which a map on a split without records falls back to.\<close>

definition remove_columns_split :: "split \<Rightarrow> string list \<Rightarrow> exn + split" where
  "remove_columns_split s removed =
     (if missing_columns s removed \<noteq> []
      then Inl (ValueError (''Column name '' @ repr_list (missing_columns s removed) @
                            '' not in the dataset. Current columns in the dataset: '' @
                            repr_list (column_names s)))
      else Inr \<lparr>column_names = filter (\<lambda>c. c \<notin> set removed) (column_names s),
                rows = map (filter (\<lambda>(c, v). c \<notin> set removed)) (rows s)\<rparr>)"

definition column_to_remove_error :: "split \<Rightarrow> string list \<Rightarrow> exn" where
  "column_to_remove_error s removed =
     ValueError (''Column to remove '' @ repr_list (missing_columns s removed) @
                 '' not in the dataset. Current columns in the dataset: '' @
                 repr_list (column_names s))"

definition split_map ::
  "(split \<Rightarrow> exn + encoding) \<Rightarrow> int \<Rightarrow> string list option \<Rightarrow> split \<Rightarrow> exn + split" where
  "split_map function num_proc remove_columns s =
     (if num_proc \<le> 0 then Inl (ValueError ''num_proc must be an integer > 0.'')
      else if rows s = [] then
        (case remove_columns of None \<Rightarrow> Inr s | Some cs \<Rightarrow> remove_columns_split s cs)
      else
        (let removed = (case remove_columns of None \<Rightarrow> [] | Some cs \<Rightarrow> cs) in
         if missing_columns s removed \<noteq> [] then Inl (column_to_remove_error s removed)
         else (case function s of
                 Inl e \<Rightarrow> Inl e
               | Inr enc \<Rightarrow> Inr (merge_batch s removed enc))))"

text \<open>\<^verbatim>\<open>DatasetDict.map\<close>: every split in turn, the first failure ends the map.\<close>

fun dataset_dict_map ::
  "(split \<Rightarrow> exn + encoding) \<Rightarrow> int \<Rightarrow> string list option \<Rightarrow> dataset_dict \<Rightarrow>
   exn + dataset_dict" where
  "dataset_dict_map function num_proc remove_columns [] = Inr []"
| "dataset_dict_map function num_proc remove_columns ((name, s) # rest) =
     (case split_map function num_proc remove_columns s of
        Inl e \<Rightarrow> Inl e
      | Inr s' \<Rightarrow>
          (case dataset_dict_map function num_proc remove_columns rest of
             Inl e \<Rightarrow> Inl e
           | Inr rest' \<Rightarrow> Inr ((name, s') # rest')))"

text \<open>
  Modelled from the spec: the sequence-wrapper dataset type \<^verbatim>\<open>PYTORCH_Dataset\<close> of the
  module \<^verbatim>\<open>.dataset\<close>, which is not part of the sources at hand. It consumes a tokenized
  split plus the mask-token id and the pad-token id.
\<close>

datatype pytorch_dataset = PYTORCH_Dataset split "nat option" "nat option"

section \<open>prepare_dataset\<close>

text \<open>Lines 49-55: the tokenizer gets the special tokens it lacks.\<close>

definition ensure_special_tokens :: "tokenizer \<Rightarrow> tokenizer" where
  "ensure_special_tokens tokenizer0 =
     (let tokenizer1 = (if mask_token tokenizer0 = None
                        then add_special_mask_token ''[MASK]'' tokenizer0 else tokenizer0)
      in if pad_token tokenizer1 = None
         then add_special_pad_token ''[PAD]'' tokenizer1 else tokenizer1)"

text \<open>Lines 59-62: the load of the raw dataset, wrapped at its call site.\<close>

definition load_raw_dataset :: "env \<Rightarrow> string \<Rightarrow> string option \<Rightarrow> exn + dataset_dict" where
  "load_raw_dataset E dataset_name cache_dir =
     (case load_dataset E dataset_name cache_dir of
        Inl e \<Rightarrow> Inl (DatasetPreparationError
                        (''Failed to load dataset '' @ dataset_name @ '': '' @ str_exn e))
      | Inr dataset \<Rightarrow> Inr dataset)"

text \<open>Line 67.\<close>

definition possible_columns :: "string list" where
  "possible_columns = [''text'', ''content'', ''input_text'', ''sentence'', ''document'']"

text \<open>
  Lines 78-81: the loop over the available columns; every turn reads
  \<^verbatim>\<open>dataset['train'][0][col]\<close> afresh.
\<close>

fun first_string_column :: "dataset_dict \<Rightarrow> string list \<Rightarrow> exn + string option" where
  "first_string_column dataset [] = Inr None"
| "first_string_column dataset (col # cols) =
     (case get_split dataset ''train'' of
        Inl e \<Rightarrow> Inl e
      | Inr train \<Rightarrow>
          (case first_record train of
             Inl e \<Rightarrow> Inl e
           | Inr r \<Rightarrow>
               if is_str (row_get r col) then Inr (Some col)
               else first_string_column dataset cols))"

text \<open>Lines 65-88: the resolution of the text column.\<close>

definition resolve_text_column :: "dataset_dict \<Rightarrow> string option \<Rightarrow> exn + string" where
  "resolve_text_column dataset text_column =
     (case text_column of
        Some c \<Rightarrow> Inr c
      | None \<Rightarrow>
          (case get_split dataset ''train'' of
             Inl e \<Rightarrow> Inl e
           | Inr train \<Rightarrow>
               (let available_columns = column_names train in
                case find (\<lambda>col. col \<in> set available_columns) possible_columns of
                  Some c \<Rightarrow> Inr c
                | None \<Rightarrow>
                    (case first_string_column dataset available_columns of
                       Inl e \<Rightarrow> Inl e
                     | Inr (Some c) \<Rightarrow> Inr c
                     | Inr None \<Rightarrow>
                         Inl (DatasetPreparationError
                                (''Could not detect text column. Available columns: '' @
                                 repr_list available_columns))))))"

text \<open>Lines 91-101: the function mapped over the batches.\<close>

definition tokenize_function ::
  "env \<Rightarrow> tokenizer \<Rightarrow> string \<Rightarrow> int \<Rightarrow> split \<Rightarrow> exn + encoding" where
  "tokenize_function E tokenizer text_column max_length examples =
     (case batch_get examples text_column of
        Inl e \<Rightarrow> Inl (DatasetPreparationError (''Tokenization failed: '' @ str_exn e))
      | Inr texts \<Rightarrow>
          (case tokenizer_call E tokenizer texts max_length of
             Inl e \<Rightarrow> Inl (DatasetPreparationError (''Tokenization failed: '' @ str_exn e))
           | Inr enc \<Rightarrow> Inr enc))"

text \<open>Line 105: the columns the map is asked to remove.\<close>

definition remove_columns_of :: "dataset_dict \<Rightarrow> string \<Rightarrow> exn + string list option" where
  "remove_columns_of dataset text_column =
     (case get_split dataset ''train'' of
        Inl e \<Rightarrow> Inl e
      | Inr train \<Rightarrow>
          Inr (if text_column \<in> set (column_names train) then Some [text_column] else None))"

text \<open>Lines 105-112: the tokenization of every split.\<close>

definition tokenize_dataset ::
  "env \<Rightarrow> tokenizer \<Rightarrow> string \<Rightarrow> int \<Rightarrow> int \<Rightarrow> dataset_dict \<Rightarrow> exn + dataset_dict" where
  "tokenize_dataset E tokenizer text_column max_length num_proc dataset =
     (case remove_columns_of dataset text_column of
        Inl e \<Rightarrow> Inl e
      | Inr remove_columns \<Rightarrow>
          dataset_dict_map (tokenize_function E tokenizer text_column max_length)
            num_proc remove_columns dataset)"

text \<open>Lines 116-130: the wrappers and the returned triple.\<close>

definition assemble ::
  "dataset_dict \<Rightarrow> tokenizer \<Rightarrow>
   exn + (pytorch_dataset \<times> pytorch_dataset option \<times> tokenizer)" where
  "assemble tokenized_dataset tokenizer =
     (case get_split tokenized_dataset ''train'' of
        Inl e \<Rightarrow> Inl e
      | Inr train \<Rightarrow>
          (let train_dataset =
                 PYTORCH_Dataset train (mask_token_id tokenizer) (pad_token_id tokenizer);
               val_dataset =
                 (case map_of tokenized_dataset ''validation'' of
                    None \<Rightarrow> None
                  | Some v \<Rightarrow>
                      Some (PYTORCH_Dataset v (mask_token_id tokenizer)
                              (pad_token_id tokenizer)))
           in Inr (train_dataset, val_dataset, tokenizer)))"

text \<open>Lines 44-130: the body of the outer \<^verbatim>\<open>try\<close>.\<close>

definition prepare_dataset_body ::
  "env \<Rightarrow> string \<Rightarrow> string \<Rightarrow> int \<Rightarrow> string option \<Rightarrow> int \<Rightarrow> string option \<Rightarrow>
   exn + (pytorch_dataset \<times> pytorch_dataset option \<times> tokenizer)" where
  "prepare_dataset_body E dataset_name tokenizer_name max_length cache_dir num_proc text_column =
     (case from_pretrained E tokenizer_name of
        Inl e \<Rightarrow> Inl e
      | Inr tokenizer0 \<Rightarrow>
          (let tokenizer = ensure_special_tokens tokenizer0 in
           case load_raw_dataset E dataset_name cache_dir of
             Inl e \<Rightarrow> Inl e
           | Inr dataset \<Rightarrow>
               (case resolve_text_column dataset text_column of
                  Inl e \<Rightarrow> Inl e
                | Inr column \<Rightarrow>
                    (case tokenize_dataset E tokenizer column max_length num_proc dataset of
                       Inl e \<Rightarrow> Inl e
                     | Inr tokenized_dataset \<Rightarrow> assemble tokenized_dataset tokenizer))))"

text \<open>
  Lines 43 and 132-134: the outer \<^verbatim>\<open>except Exception\<close>. It has no clause of its own for
  \<^verbatim>\<open>DatasetPreparationError\<close>, which is an \<^verbatim>\<open>Exception\<close> too.
\<close>

definition prepare_dataset ::
  "env \<Rightarrow> string \<Rightarrow> string \<Rightarrow> int \<Rightarrow> string option \<Rightarrow> int \<Rightarrow> string option \<Rightarrow>
   exn + (pytorch_dataset \<times> pytorch_dataset option \<times> tokenizer)" where
  "prepare_dataset E dataset_name tokenizer_name max_length cache_dir num_proc text_column =
     (case prepare_dataset_body E dataset_name tokenizer_name max_length cache_dir num_proc
             text_column of
        Inl e \<Rightarrow> Inl (DatasetPreparationError (''Dataset preparation failed: '' @ str_exn e))
      | Inr result \<Rightarrow> Inr result)"

section \<open>Example runs\<close>

text \<open>
  Concrete collaborators on which the theorems below are instantiated: a tokenizer without
  mask and pad token, one that has both, a tokenizer call that pads every text to the
  requested length and refuses what is not a string, and a few small datasets.
\<close>

definition example_tokenizer :: tokenizer where
  "example_tokenizer =
     \<lparr>mask_token = None, pad_token = None, unk_token = Some ''<unk>'',
      vocab = [(''a'', 0), (''b'', 1), (''<unk>'', 2)]\<rparr>"

definition masked_tokenizer :: tokenizer where
  "masked_tokenizer =
     \<lparr>mask_token = Some ''[MASK]'', pad_token = Some ''[PAD]'', unk_token = Some ''[UNK]'',
      vocab = [(''[PAD]'', 0), (''[UNK]'', 1), (''[MASK]'', 2), (''a'', 3)]\<rparr>"

definition example_tokenizer_call :: "tokenizer \<Rightarrow> pyval list \<Rightarrow> int \<Rightarrow> exn + encoding" where
  "example_tokenizer_call t texts n =
     (if list_all is_str texts
      then Inr [(''input_ids'', map (\<lambda>v. PList (replicate (nat n) (PInt 0))) texts),
                (''attention_mask'', map (\<lambda>v. PList (replicate (nat n) (PInt 1))) texts)]
      else Inl (ValueError ''text input must be of type str''))"

definition example_env :: "dataset_dict \<Rightarrow> env" where
  "example_env d =
     \<lparr>from_pretrained = (\<lambda>name. Inr example_tokenizer),
      load_dataset = (\<lambda>name cache_dir. Inr d),
      tokenizer_call = example_tokenizer_call\<rparr>"

definition offline_env :: env where
  "offline_env =
     \<lparr>from_pretrained = (\<lambda>name. Inr example_tokenizer),
      load_dataset = (\<lambda>name cache_dir. Inl (OtherError ''Connection refused'')),
      tokenizer_call = example_tokenizer_call\<rparr>"

definition text_train :: split where
  "text_train =
     \<lparr>column_names = [''label'', ''content'', ''text''],
      rows = [[(''label'', PInt 1), (''content'', PStr ''c''), (''text'', PStr ''a'')],
              [(''label'', PInt 0), (''content'', PStr ''d''), (''text'', PStr ''bb'')]]\<rparr>"

definition text_validation :: split where
  "text_validation =
     \<lparr>column_names = [''label'', ''content'', ''text''],
      rows = [[(''label'', PInt 1), (''content'', PStr ''e''), (''text'', PStr ''ccc'')]]\<rparr>"

definition text_dataset :: dataset_dict where
  "text_dataset = [(''train'', text_train), (''validation'', text_validation)]"

definition plain_dataset :: dataset_dict where
  "plain_dataset =
     [(''train'', \<lparr>column_names = [''text''],
                   rows = [[(''text'', PStr ''a'')], [(''text'', PStr ''bb'')]]\<rparr>)]"

definition foo_bar_train :: split where
  "foo_bar_train =
     \<lparr>column_names = [''bar'', ''foo''],
      rows = [[(''bar'', PInt 7), (''foo'', PStr ''hello'')]]\<rparr>"

definition foo_bar_dataset :: dataset_dict where
  "foo_bar_dataset = [(''train'', foo_bar_train)]"

definition numeric_train :: split where
  "numeric_train =
     \<lparr>column_names = [''x'', ''y''],
      rows = [[(''x'', PInt 1), (''y'', PList [PInt 2, PInt 3])]]\<rparr>"

definition numeric_dataset :: dataset_dict where
  "numeric_dataset = [(''train'', numeric_train)]"

definition test_only_dataset :: dataset_dict where
  "test_only_dataset =
     [(''test'', \<lparr>column_names = [''text''], rows = [[(''text'', PStr ''a'')]]\<rparr>)]"

definition mixed_dataset :: dataset_dict where
  "mixed_dataset =
     [(''train'', \<lparr>column_names = [''text''], rows = [[(''text'', PStr ''a'')]]\<rparr>),
      (''validation'', \<lparr>column_names = [''body''], rows = [[(''body'', PStr ''b'')]]\<rparr>)]"

definition header_only_dataset :: dataset_dict where
  "header_only_dataset = [(''train'', \<lparr>column_names = [''text''], rows = []\<rparr>)]"

definition half_tokenizer :: tokenizer where
  "half_tokenizer =
     \<lparr>mask_token = Some ''<mask>'', pad_token = None, unk_token = Some ''<unk>'',
      vocab = [(''<mask>'', 5), (''<unk>'', 7), (''a'', 9)]\<rparr>"

section \<open>Auxiliary facts\<close>

lemma find_first_present:
  "xs = pre @ c # post \<Longrightarrow> \<forall>p \<in> set pre. \<not> P p \<Longrightarrow> P c \<Longrightarrow> find P xs = Some c"
  by (induction pre arbitrary: xs) auto

lemma find_none_if_all: "\<forall>x \<in> set xs. \<not> P x \<Longrightarrow> find P xs = None"
  by (induction xs) auto

lemma find_unique:
  "x \<in> set xs \<Longrightarrow> P x \<Longrightarrow> \<forall>y \<in> set xs. P y \<longrightarrow> y = x \<Longrightarrow> find P xs = Some x"
proof (induction xs)
  case Nil
  then show ?case by simp
next
  case (Cons a xs)
  show ?case
  proof (cases "P a")
    case True
    then have "a = x" using Cons.prems(3) by simp
    then show ?thesis using True by simp
  next
    case False
    then have "x \<in> set xs" using Cons.prems(1,2) by auto
    moreover have "\<forall>y \<in> set xs. P y \<longrightarrow> y = x" using Cons.prems(3) by simp
    ultimately have "find P xs = Some x" using Cons.IH Cons.prems(2) by blast
    then show ?thesis using False by simp
  qed
qed

lemma get_split_found: "map_of d name = Some s \<Longrightarrow> get_split d name = Inr s"
  by (simp add: get_split_def)

lemma get_split_missing: "map_of d name = None \<Longrightarrow> get_split d name = Inl (KeyError name)"
  by (simp add: get_split_def)

lemma first_record_cons: "rows s = r # rs \<Longrightarrow> first_record s = Inr r"
  by (simp add: first_record_def)

lemma first_string_column_find:
  assumes "map_of dataset ''train'' = Some train" and "rows train = r # rs"
  shows "first_string_column dataset cols = Inr (find (\<lambda>c. is_str (row_get r c)) cols)"
proof (induction cols)
  case Nil
  show ?case by simp
next
  case (Cons c cols)
  show ?case
    using Cons.IH get_split_found [OF assms(1)] first_record_cons [OF assms(2)]
    by simp
qed

lemma first_string_column_none:
  assumes "map_of dataset ''train'' = Some train"
      and "\<forall>c \<in> set cols. \<exists>r rs. rows train = r # rs \<and> \<not> is_str (row_get r c)"
  shows "first_string_column dataset cols = Inr None"
  using assms(2)
proof (induction cols)
  case Nil
  show ?case by simp
next
  case (Cons c cols)
  from Cons.prems obtain r rs where r: "rows train = r # rs" "\<not> is_str (row_get r c)"
    by auto
  have "first_string_column dataset cols = Inr None"
    using Cons.IH Cons.prems by simp
  then show ?case
    using get_split_found [OF assms(1)] first_record_cons [OF r(1)] r(2) by simp
qed

lemma resolve_candidate:
  assumes "map_of dataset ''train'' = Some train"
      and "find (\<lambda>col. col \<in> set (column_names train)) possible_columns = Some c"
  shows "resolve_text_column dataset None = Inr c"
  using get_split_found [OF assms(1)] assms(2)
  by (simp add: resolve_text_column_def Let_def)

lemma resolve_no_candidate:
  assumes "map_of dataset ''train'' = Some train"
      and "\<forall>p \<in> set possible_columns. p \<notin> set (column_names train)"
  shows "resolve_text_column dataset None =
           (case first_string_column dataset (column_names train) of
              Inl e \<Rightarrow> Inl e
            | Inr None \<Rightarrow> Inl (DatasetPreparationError
                  (''Could not detect text column. Available columns: '' @
                   repr_list (column_names train)))
            | Inr (Some c) \<Rightarrow> Inr c)"
proof -
  have "find (\<lambda>col. col \<in> set (column_names train)) possible_columns = None"
    using assms(2) by (intro find_none_if_all) simp
  then show ?thesis
    using get_split_found [OF assms(1)] by (simp add: resolve_text_column_def Let_def)
qed

lemma body_after_load:
  assumes "from_pretrained E tokenizer_name = Inr t0"
      and "load_dataset E dataset_name cache_dir = Inr dataset"
  shows "prepare_dataset_body E dataset_name tokenizer_name max_length cache_dir num_proc
           text_column =
         (case resolve_text_column dataset text_column of
            Inl e \<Rightarrow> Inl e
          | Inr column \<Rightarrow>
              (case tokenize_dataset E (ensure_special_tokens t0) column max_length num_proc
                      dataset of
                 Inl e \<Rightarrow> Inl e
               | Inr tokenized \<Rightarrow> assemble tokenized (ensure_special_tokens t0)))"
  using assms by (simp add: prepare_dataset_body_def load_raw_dataset_def Let_def)

lemma prepare_dataset_of_body_error:
  "prepare_dataset_body E dn tn ml cd np tc = Inl e \<Longrightarrow>
   prepare_dataset E dn tn ml cd np tc =
     Inl (DatasetPreparationError (''Dataset preparation failed: '' @ str_exn e))"
  by (simp add: prepare_dataset_def)


lemma prepare_dataset_result_body:
  "prepare_dataset E dn tn ml cd np tc = Inr r \<Longrightarrow>
   prepare_dataset_body E dn tn ml cd np tc = Inr r"
  by (simp add: prepare_dataset_def split: sum.splits)

lemma body_result_steps:
  assumes "prepare_dataset_body E dn tn ml cd np tc = Inr r"
  shows "\<exists>t0 dataset column tokenized.
           from_pretrained E tn = Inr t0 \<and>
           load_dataset E dn cd = Inr dataset \<and>
           resolve_text_column dataset tc = Inr column \<and>
           tokenize_dataset E (ensure_special_tokens t0) column ml np dataset = Inr tokenized \<and>
           assemble tokenized (ensure_special_tokens t0) = Inr r"
  using assms
  by (simp add: prepare_dataset_body_def load_raw_dataset_def Let_def split: sum.splits)

lemma assemble_result:
  assumes "assemble tokenized t = Inr (a, b, t')"
  shows "t' = t \<and>
         (\<exists>train. map_of tokenized ''train'' = Some train \<and>
            a = PYTORCH_Dataset train (mask_token_id t) (pad_token_id t)) \<and>
         b = (case map_of tokenized ''validation'' of
                None \<Rightarrow> None
              | Some v \<Rightarrow> Some (PYTORCH_Dataset v (mask_token_id t) (pad_token_id t)))"
  using assms
  by (auto simp add: assemble_def get_split_def Let_def split: option.splits)


lemma dataset_dict_map_lookup_none:
  "dataset_dict_map f np rc d = Inr d' \<Longrightarrow> map_of d name = None \<Longrightarrow> map_of d' name = None"
proof (induction d arbitrary: d')
  case Nil
  then show ?case by simp
next
  case (Cons p d)
  obtain n s where p: "p = (n, s)" by (cases p)
  from Cons.prems(1) obtain s' rest' where
    st: "split_map f np rc s = Inr s'" "dataset_dict_map f np rc d = Inr rest'"
        "d' = (n, s') # rest'"
    by (auto simp add: p split: sum.splits)
  have "n \<noteq> name" and "map_of d name = None"
    using Cons.prems(2) by (auto simp add: p split: if_splits)
  then show ?case
    using Cons.IH [OF st(2)] st(3) by simp
qed

lemma dataset_dict_map_lookup_some:
  "dataset_dict_map f np rc d = Inr d' \<Longrightarrow> map_of d name = Some s \<Longrightarrow>
   \<exists>s'. split_map f np rc s = Inr s' \<and> map_of d' name = Some s'"
proof (induction d arbitrary: d')
  case Nil
  then show ?case by simp
next
  case (Cons p d)
  obtain n s0 where p: "p = (n, s0)" by (cases p)
  from Cons.prems(1) obtain s0' rest' where
    st: "split_map f np rc s0 = Inr s0'" "dataset_dict_map f np rc d = Inr rest'"
        "d' = (n, s0') # rest'"
    by (auto simp add: p split: sum.splits)
  show ?case
  proof (cases "n = name")
    case True
    then have "s0 = s" using Cons.prems(2) by (simp add: p)
    then show ?thesis using st(1) st(3) True by simp
  next
    case False
    then have "map_of d name = Some s" using Cons.prems(2) by (simp add: p)
    from Cons.IH [OF st(2) this] show ?thesis using st(3) False by simp
  qed
qed

lemma split_map_keeps_other_columns:
  assumes "split_map f np rc s = Inr s'"
      and "rc = None \<or> rc = Some [column]"
      and "c \<in> set (column_names s)" and "c \<noteq> column"
  shows "c \<in> set (column_names s')"
proof -
  have removed: "c \<notin> set (case rc of None \<Rightarrow> [] | Some cs \<Rightarrow> cs)"
    using assms(2,4) by auto
  show ?thesis
  proof (cases "rows s = []")
    case True
    then show ?thesis
      using assms(1) removed assms(3)
      by (auto simp add: split_map_def remove_columns_split_def
               split: if_splits option.splits)
  next
    case False
    then obtain enc where
      "s' = merge_batch s (case rc of None \<Rightarrow> [] | Some cs \<Rightarrow> cs) enc"
      using assms(1)
      by (auto simp add: split_map_def Let_def split: if_splits sum.splits)
    then show ?thesis
      using removed assms(3) by (simp add: merge_batch_def Let_def)
  qed
qed








lemma add_token_registers: "\<exists>i. map_of (add_token s v) s = Some i"
  by (auto simp add: add_token_def map_add_def)

lemma add_token_keeps: "map_of v x = Some i \<Longrightarrow> map_of (add_token s v) x = Some i"
  by (simp add: add_token_def map_add_def)

lemma convert_known:
  "map_of (vocab t) s = Some i \<Longrightarrow> convert_tokens_to_ids t s = Some i"
  by (simp add: convert_tokens_to_ids_def)

lemma ensure_special_tokens_vocab:
  "map_of (vocab t) x = Some i \<Longrightarrow> map_of (vocab (ensure_special_tokens t)) x = Some i"
  by (simp add: ensure_special_tokens_def add_special_mask_token_def add_special_pad_token_def
        Let_def add_token_keeps)

lemma ensure_special_tokens_mask:
  "mask_token (ensure_special_tokens t) =
     (case mask_token t of None \<Rightarrow> Some ''[MASK]'' | Some s \<Rightarrow> Some s)"
  by (simp add: ensure_special_tokens_def add_special_mask_token_def add_special_pad_token_def
        Let_def split: option.splits)

lemma ensure_special_tokens_pad:
  "pad_token (ensure_special_tokens t) =
     (case pad_token t of None \<Rightarrow> Some ''[PAD]'' | Some s \<Rightarrow> Some s)"
  by (simp add: ensure_special_tokens_def add_special_mask_token_def add_special_pad_token_def
        Let_def split: option.splits)

lemma ensure_special_tokens_mask_registered:
  "mask_token t = None \<Longrightarrow> map_of (vocab (ensure_special_tokens t)) ''[MASK]'' \<noteq> None"
proof -
  assume "mask_token t = None"
  then obtain i where "map_of (vocab (add_special_mask_token ''[MASK]'' t)) ''[MASK]'' = Some i"
    using add_token_registers [of "''[MASK]''" "vocab t"]
    by (auto simp add: add_special_mask_token_def)
  then show ?thesis
    using \<open>mask_token t = None\<close>
    by (simp add: ensure_special_tokens_def Let_def add_special_pad_token_def add_token_keeps)
qed

lemma ensure_special_tokens_pad_registered:
  "pad_token t = None \<Longrightarrow> map_of (vocab (ensure_special_tokens t)) ''[PAD]'' \<noteq> None"
proof -
  assume none: "pad_token t = None"
  have "vocab (ensure_special_tokens t) =
      add_token ''[PAD]'' (if mask_token t = None then add_token ''[MASK]'' (vocab t)
                           else vocab t)"
    using none
    by (simp add: ensure_special_tokens_def Let_def add_special_pad_token_def
          add_special_mask_token_def)
  then show ?thesis
    using add_token_registers [of "''[PAD]''"] by auto
qed

lemma ensure_special_tokens_unchanged:
  "mask_token t \<noteq> None \<Longrightarrow> pad_token t \<noteq> None \<Longrightarrow> ensure_special_tokens t = t"
  by (auto simp add: ensure_special_tokens_def Let_def)

lemma ensure_special_tokens_exact:
  "ensure_special_tokens t =
     t\<lparr>mask_token := (case mask_token t of None \<Rightarrow> Some ''[MASK]'' | Some s \<Rightarrow> Some s),
       pad_token := (case pad_token t of None \<Rightarrow> Some ''[PAD]'' | Some s \<Rightarrow> Some s),
       vocab :=
         (let v1 = (if mask_token t = None then add_token ''[MASK]'' (vocab t) else vocab t)
          in if pad_token t = None then add_token ''[PAD]'' v1 else v1)\<rparr>"
  by (cases "mask_token t"; cases "pad_token t")
     (simp_all add: ensure_special_tokens_def add_special_mask_token_def
        add_special_pad_token_def Let_def)

lemma ensure_special_tokens_unk: "unk_token (ensure_special_tokens t) = unk_token t"
  by (simp add: ensure_special_tokens_exact)

lemma add_token_extends:
  "\<exists>new. add_token s v = v @ new \<and> set (map fst new) \<subseteq> {s} \<and> length new \<le> 1"
  by (simp add: add_token_def)

lemma ensure_special_tokens_extends:
  "\<exists>new. vocab (ensure_special_tokens t) = vocab t @ new \<and>
         set (map fst new) \<subseteq>
           (if mask_token t = None then {''[MASK]''} else {}) \<union>
           (if pad_token t = None then {''[PAD]''} else {}) \<and>
         length new \<le> 2"
proof -
  define v1 where "v1 = (if mask_token t = None then add_token ''[MASK]'' (vocab t) else vocab t)"
  define v2 where "v2 = (if pad_token t = None then add_token ''[PAD]'' v1 else v1)"
  have "\<exists>n1. v1 = vocab t @ n1 \<and>
      set (map fst n1) \<subseteq> (if mask_token t = None then {''[MASK]''} else {}) \<and>
      length n1 \<le> 1"
  proof (cases "mask_token t = None")
    case True
    then show ?thesis
      using add_token_extends [of "''[MASK]''" "vocab t"] by (simp add: v1_def)
  next
    case False
    then have "v1 = vocab t @ []" unfolding v1_def by auto
    then show ?thesis using False by (intro exI [of _ "[]"]) auto
  qed
  then obtain n1 where n1: "v1 = vocab t @ n1"
      "set (map fst n1) \<subseteq> (if mask_token t = None then {''[MASK]''} else {})"
      "length n1 \<le> 1"
    by blast
  have "\<exists>n2. v2 = v1 @ n2 \<and>
      set (map fst n2) \<subseteq> (if pad_token t = None then {''[PAD]''} else {}) \<and>
      length n2 \<le> 1"
  proof (cases "pad_token t = None")
    case True
    then show ?thesis
      using add_token_extends [of "''[PAD]''" v1] by (simp add: v2_def)
  next
    case False
    then have "v2 = v1 @ []" unfolding v2_def by auto
    then show ?thesis using False by (intro exI [of _ "[]"]) auto
  qed
  then obtain n2 where n2: "v2 = v1 @ n2"
      "set (map fst n2) \<subseteq> (if pad_token t = None then {''[PAD]''} else {})"
      "length n2 \<le> 1"
    by blast
  have "vocab (ensure_special_tokens t) = v2"
    by (simp add: ensure_special_tokens_exact v1_def v2_def Let_def)
  then have "vocab (ensure_special_tokens t) = vocab t @ (n1 @ n2)"
    using n1(1) n2(1) by simp
  moreover have "set (map fst (n1 @ n2)) \<subseteq>
      (if mask_token t = None then {''[MASK]''} else {}) \<union>
      (if pad_token t = None then {''[PAD]''} else {})"
    using n1(2) n2(2) by auto
  moreover have "length (n1 @ n2) \<le> 2"
    using n1(3) n2(3) by simp
  ultimately show ?thesis by blast
qed

lemma ensure_special_tokens_keeps_id:
  assumes "map_of (vocab t) s = Some i"
  shows "convert_tokens_to_ids (ensure_special_tokens t) s = convert_tokens_to_ids t s"
  using assms ensure_special_tokens_vocab [OF assms]
  by (simp add: convert_tokens_to_ids_def)

text \<open>
  Claim C6. After the provisioning of lines 49-55 the tokenizer has a mask-token id and a
  pad-token id, and it is the tokenizer \<^verbatim>\<open>prepare_dataset\<close> returns. A missing mask
  token is registered as \<^verbatim>\<open>[MASK]\<close>, a missing pad token as \<^verbatim>\<open>[PAD]\<close>, and
  nothing else changes: a special token that is defined stays the same token with the same
  id, the unknown token stays, every entry of the vocabulary keeps its id, and the
  vocabulary grows at its end by at most the two registered tokens, each only when it was
  missing. A tokenizer that defines both is left as it is. The tokenizer the provider hands
  over is taken to have its defined special tokens in its vocabulary.
\<close>
theorem special_tokens_provisioned:
  assumes "tokenizer_ok t0"
  shows "mask_token_id (ensure_special_tokens t0) \<noteq> None \<and>
         pad_token_id (ensure_special_tokens t0) \<noteq> None \<and>
         (mask_token t0 = None \<longrightarrow>
            mask_token (ensure_special_tokens t0) = Some ''[MASK]'' \<and>
            map_of (vocab (ensure_special_tokens t0)) ''[MASK]'' \<noteq> None) \<and>
         (pad_token t0 = None \<longrightarrow>
            pad_token (ensure_special_tokens t0) = Some ''[PAD]'' \<and>
            map_of (vocab (ensure_special_tokens t0)) ''[PAD]'' \<noteq> None) \<and>
         (mask_token t0 \<noteq> None \<and> pad_token t0 \<noteq> None \<longrightarrow>
            ensure_special_tokens t0 = t0 \<and>
            mask_token_id (ensure_special_tokens t0) = mask_token_id t0 \<and>
            pad_token_id (ensure_special_tokens t0) = pad_token_id t0) \<and>
         ensure_special_tokens t0 =
           t0\<lparr>mask_token :=
                (case mask_token t0 of None \<Rightarrow> Some ''[MASK]'' | Some s \<Rightarrow> Some s),
              pad_token :=
                (case pad_token t0 of None \<Rightarrow> Some ''[PAD]'' | Some s \<Rightarrow> Some s),
              vocab :=
                (let v1 = (if mask_token t0 = None then add_token ''[MASK]'' (vocab t0)
                           else vocab t0)
                 in if pad_token t0 = None then add_token ''[PAD]'' v1 else v1)\<rparr> \<and>
         unk_token (ensure_special_tokens t0) = unk_token t0 \<and>
         (\<forall>s. mask_token t0 = Some s \<longrightarrow>
            mask_token (ensure_special_tokens t0) = Some s \<and>
            mask_token_id (ensure_special_tokens t0) = mask_token_id t0) \<and>
         (\<forall>s. pad_token t0 = Some s \<longrightarrow>
            pad_token (ensure_special_tokens t0) = Some s \<and>
            pad_token_id (ensure_special_tokens t0) = pad_token_id t0) \<and>
         (\<forall>x i. map_of (vocab t0) x = Some i \<longrightarrow>
            map_of (vocab (ensure_special_tokens t0)) x = Some i) \<and>
         (\<exists>new. vocab (ensure_special_tokens t0) = vocab t0 @ new \<and>
            set (map fst new) \<subseteq>
              (if mask_token t0 = None then {''[MASK]''} else {}) \<union>
              (if pad_token t0 = None then {''[PAD]''} else {}) \<and>
            length new \<le> 2) \<and>
         (\<forall>E dn tn ml cd np tc a b tok.
            from_pretrained E tn = Inr t0 \<and>
            prepare_dataset E dn tn ml cd np tc = Inr (a, b, tok) \<longrightarrow>
            tok = ensure_special_tokens t0)"
proof -
  let ?t = "ensure_special_tokens t0"
  have mask: "mask_token_id ?t \<noteq> None"
  proof (cases "mask_token t0")
    case None
    then obtain i where "map_of (vocab ?t) ''[MASK]'' = Some i"
      using ensure_special_tokens_mask_registered by blast
    then show ?thesis
      using None by (simp add: mask_token_id_def ensure_special_tokens_mask convert_known)
  next
    case (Some s)
    then obtain i where "map_of (vocab t0) s = Some i"
      using assms by (auto simp add: tokenizer_ok_def)
    then have "map_of (vocab ?t) s = Some i" by (rule ensure_special_tokens_vocab)
    then show ?thesis
      using Some by (simp add: mask_token_id_def ensure_special_tokens_mask convert_known)
  qed
  have pad: "pad_token_id ?t \<noteq> None"
  proof (cases "pad_token t0")
    case None
    then obtain i where "map_of (vocab ?t) ''[PAD]'' = Some i"
      using ensure_special_tokens_pad_registered by blast
    then show ?thesis
      using None by (simp add: pad_token_id_def ensure_special_tokens_pad convert_known)
  next
    case (Some s)
    then obtain i where "map_of (vocab t0) s = Some i"
      using assms by (auto simp add: tokenizer_ok_def)
    then have "map_of (vocab ?t) s = Some i" by (rule ensure_special_tokens_vocab)
    then show ?thesis
      using Some by (simp add: pad_token_id_def ensure_special_tokens_pad convert_known)
  qed
  have returned: "tok = ?t"
    if "from_pretrained E tn = Inr t0"
      and "prepare_dataset E dn tn ml cd np tc = Inr (a, b, tok)"
    for E dn tn ml cd np tc a b tok
  proof -
    from that(2) have "prepare_dataset_body E dn tn ml cd np tc = Inr (a, b, tok)"
      by (rule prepare_dataset_result_body)
    then obtain t1 tokenized where
      "from_pretrained E tn = Inr t1"
      "assemble tokenized (ensure_special_tokens t1) = Inr (a, b, tok)"
      using body_result_steps by blast
    then show ?thesis using that(1) assemble_result by fastforce
  qed
  have ret: "\<forall>E dn tn ml cd np tc a b tok.
      from_pretrained E tn = Inr t0 \<and>
      prepare_dataset E dn tn ml cd np tc = Inr (a, b, tok) \<longrightarrow>
      tok = ensure_special_tokens t0"
    using returned by blast
  have keep_mask: "\<forall>s. mask_token t0 = Some s \<longrightarrow>
      mask_token ?t = Some s \<and> mask_token_id ?t = mask_token_id t0"
  proof (intro allI impI)
    fix s assume s: "mask_token t0 = Some s"
    then obtain i where "map_of (vocab t0) s = Some i"
      using assms by (auto simp add: tokenizer_ok_def)
    then have "convert_tokens_to_ids ?t s = convert_tokens_to_ids t0 s"
      by (rule ensure_special_tokens_keeps_id)
    then show "mask_token ?t = Some s \<and> mask_token_id ?t = mask_token_id t0"
      using s by (simp add: mask_token_id_def ensure_special_tokens_mask)
  qed
  have keep_pad: "\<forall>s. pad_token t0 = Some s \<longrightarrow>
      pad_token ?t = Some s \<and> pad_token_id ?t = pad_token_id t0"
  proof (intro allI impI)
    fix s assume s: "pad_token t0 = Some s"
    then obtain i where "map_of (vocab t0) s = Some i"
      using assms by (auto simp add: tokenizer_ok_def)
    then have "convert_tokens_to_ids ?t s = convert_tokens_to_ids t0 s"
      by (rule ensure_special_tokens_keeps_id)
    then show "pad_token ?t = Some s \<and> pad_token_id ?t = pad_token_id t0"
      using s by (simp add: pad_token_id_def ensure_special_tokens_pad)
  qed
  have keep_vocab: "\<forall>x i. map_of (vocab t0) x = Some i \<longrightarrow> map_of (vocab ?t) x = Some i"
    using ensure_special_tokens_vocab by blast
  have first: "mask_token_id ?t \<noteq> None \<and>
      pad_token_id ?t \<noteq> None \<and>
      (mask_token t0 = None \<longrightarrow>
         mask_token ?t = Some ''[MASK]'' \<and> map_of (vocab ?t) ''[MASK]'' \<noteq> None) \<and>
      (pad_token t0 = None \<longrightarrow>
         pad_token ?t = Some ''[PAD]'' \<and> map_of (vocab ?t) ''[PAD]'' \<noteq> None) \<and>
      (mask_token t0 \<noteq> None \<and> pad_token t0 \<noteq> None \<longrightarrow>
         ?t = t0 \<and> mask_token_id ?t = mask_token_id t0 \<and>
         pad_token_id ?t = pad_token_id t0)"
    using mask pad
    by (intro conjI)
       (simp_all add: ensure_special_tokens_mask ensure_special_tokens_pad
          ensure_special_tokens_mask_registered ensure_special_tokens_pad_registered
          ensure_special_tokens_unchanged)
  show ?thesis
    apply (intro conjI)
                apply (rule first [THEN conjunct1])
               apply (rule first [THEN conjunct2, THEN conjunct1])
              apply (rule first [THEN conjunct2, THEN conjunct2, THEN conjunct1])
             apply (rule first [THEN conjunct2, THEN conjunct2, THEN conjunct2, THEN conjunct1])
            apply (rule first [THEN conjunct2, THEN conjunct2, THEN conjunct2, THEN conjunct2])
           apply (rule ensure_special_tokens_exact)
          apply (rule ensure_special_tokens_unk)
         apply (rule keep_mask)
        apply (rule keep_pad)
       apply (rule keep_vocab)
      apply (rule ensure_special_tokens_extends)
     apply (rule ret)
    done
qed


lemma example_tokenizer_ids:
  "mask_token_id (ensure_special_tokens example_tokenizer) = Some 3 \<and>
   pad_token_id (ensure_special_tokens example_tokenizer) = Some 4 \<and>
   mask_token_id masked_tokenizer = Some 2 \<and>
   pad_token_id masked_tokenizer = Some 0 \<and>
   mask_token_id half_tokenizer = Some 5 \<and>
   ensure_special_tokens half_tokenizer =
     \<lparr>mask_token = Some ''<mask>'', pad_token = Some ''[PAD]'', unk_token = Some ''<unk>'',
      vocab = [(''<mask>'', 5), (''<unk>'', 7), (''a'', 9), (''[PAD]'', 3)]\<rparr>"
  by code_simp

theorem special_tokens_provisioned_witness:
  "tokenizer_ok example_tokenizer \<and>
   mask_token example_tokenizer = None \<and>
   pad_token example_tokenizer = None \<and>
   mask_token (ensure_special_tokens example_tokenizer) = Some ''[MASK]'' \<and>
   pad_token (ensure_special_tokens example_tokenizer) = Some ''[PAD]'' \<and>
   mask_token_id (ensure_special_tokens example_tokenizer) = Some 3 \<and>
   pad_token_id (ensure_special_tokens example_tokenizer) = Some 4 \<and>
   tokenizer_ok masked_tokenizer \<and>
   ensure_special_tokens masked_tokenizer = masked_tokenizer \<and>
   mask_token_id (ensure_special_tokens masked_tokenizer) = Some 2 \<and>
   pad_token_id (ensure_special_tokens masked_tokenizer) = Some 0 \<and>
   tokenizer_ok half_tokenizer \<and>
   mask_token half_tokenizer = Some ''<mask>'' \<and>
   mask_token (ensure_special_tokens half_tokenizer) = Some ''<mask>'' \<and>
   mask_token_id (ensure_special_tokens half_tokenizer) = Some 5 \<and>
   unk_token (ensure_special_tokens half_tokenizer) = Some ''<unk>'' \<and>
   ensure_special_tokens half_tokenizer =
     \<lparr>mask_token = Some ''<mask>'', pad_token = Some ''[PAD]'', unk_token = Some ''<unk>'',
      vocab = [(''<mask>'', 5), (''<unk>'', 7), (''a'', 9), (''[PAD]'', 3)]\<rparr>"
proof -
  have ok1: "tokenizer_ok example_tokenizer"
    by (simp add: tokenizer_ok_def example_tokenizer_def)
  have ok2: "tokenizer_ok masked_tokenizer"
    by (simp add: tokenizer_ok_def masked_tokenizer_def)
  have ok3: "tokenizer_ok half_tokenizer"
    by (simp add: tokenizer_ok_def half_tokenizer_def)
  have none: "mask_token example_tokenizer = None" "pad_token example_tokenizer = None"
    by (simp_all add: example_tokenizer_def)
  have some: "mask_token masked_tokenizer \<noteq> None" "pad_token masked_tokenizer \<noteq> None"
    by (simp_all add: masked_tokenizer_def)
  have half: "mask_token half_tokenizer = Some ''<mask>''"
    "unk_token half_tokenizer = Some ''<unk>''"
    by (simp_all add: half_tokenizer_def)
  have added: "mask_token (ensure_special_tokens example_tokenizer) = Some ''[MASK]'' \<and>
      pad_token (ensure_special_tokens example_tokenizer) = Some ''[PAD]''"
    using special_tokens_provisioned [OF ok1] none by blast
  have same: "ensure_special_tokens masked_tokenizer = masked_tokenizer"
    using special_tokens_provisioned [OF ok2] some by blast
  have kept: "mask_token (ensure_special_tokens half_tokenizer) = Some ''<mask>'' \<and>
      mask_token_id (ensure_special_tokens half_tokenizer) = mask_token_id half_tokenizer"
    using special_tokens_provisioned [OF ok3] half(1) by blast
  have unk: "unk_token (ensure_special_tokens half_tokenizer) = unk_token half_tokenizer"
    using special_tokens_provisioned [OF ok3] by blast
  have "mask_token_id (ensure_special_tokens half_tokenizer) = Some 5"
    using kept example_tokenizer_ids by simp
  moreover have "unk_token (ensure_special_tokens half_tokenizer) = Some ''<unk>''"
    using unk half(2) by simp
  ultimately show ?thesis
    using ok1 ok2 ok3 none half(1) added same kept example_tokenizer_ids by simp
qed

text \<open>
  Claim C1, as the code has it. Every failure of the preparation reaches the caller as a
  \<^verbatim>\<open>DatasetPreparationError\<close> whose message is the prefix
  \<^verbatim>\<open>"Dataset preparation failed: "\<close> followed by the text of the original exception. This
  holds for every exception raised inside the outer \<^verbatim>\<open>try\<close>, also for one that
  already is a \<^verbatim>\<open>DatasetPreparationError\<close>: it is wrapped once more, its message
  becoming the tail of the new one.
\<close>
theorem outer_boundary_wraps_every_failure:
  "(\<forall>e. prepare_dataset E dn tn ml cd np tc = Inl e \<longrightarrow>
      (\<exists>e0. prepare_dataset_body E dn tn ml cd np tc = Inl e0 \<and>
            e = DatasetPreparationError (''Dataset preparation failed: '' @ str_exn e0))) \<and>
   (\<forall>e0. prepare_dataset_body E dn tn ml cd np tc = Inl e0 \<longrightarrow>
      prepare_dataset E dn tn ml cd np tc =
        Inl (DatasetPreparationError (''Dataset preparation failed: '' @ str_exn e0))) \<and>
   (\<forall>m. prepare_dataset_body E dn tn ml cd np tc = Inl (DatasetPreparationError m) \<longrightarrow>
      prepare_dataset E dn tn ml cd np tc =
        Inl (DatasetPreparationError (''Dataset preparation failed: '' @ m)))"
proof (intro conjI allI impI)
  fix e
  assume "prepare_dataset E dn tn ml cd np tc = Inl e"
  then show "\<exists>e0. prepare_dataset_body E dn tn ml cd np tc = Inl e0 \<and>
      e = DatasetPreparationError (''Dataset preparation failed: '' @ str_exn e0)"
    by (cases "prepare_dataset_body E dn tn ml cd np tc") (auto simp add: prepare_dataset_def)
next
  fix e0
  assume "prepare_dataset_body E dn tn ml cd np tc = Inl e0"
  then show "prepare_dataset E dn tn ml cd np tc =
      Inl (DatasetPreparationError (''Dataset preparation failed: '' @ str_exn e0))"
    by (rule prepare_dataset_of_body_error)
next
  fix m
  assume "prepare_dataset_body E dn tn ml cd np tc = Inl (DatasetPreparationError m)"
  then show "prepare_dataset E dn tn ml cd np tc =
      Inl (DatasetPreparationError (''Dataset preparation failed: '' @ m))"
    using prepare_dataset_of_body_error by fastforce
qed

lemma offline_body:
  "prepare_dataset_body offline_env ''wikitext'' ''gpt2'' 8 None 4 None =
     Inl (DatasetPreparationError ''Failed to load dataset wikitext: Connection refused'')"
  by (simp add: prepare_dataset_body_def offline_env_def load_raw_dataset_def Let_def)

theorem outer_boundary_wraps_every_failure_witness:
  "prepare_dataset_body offline_env ''wikitext'' ''gpt2'' 8 None 4 None =
     Inl (DatasetPreparationError ''Failed to load dataset wikitext: Connection refused'') \<and>
   prepare_dataset offline_env ''wikitext'' ''gpt2'' 8 None 4 None =
     Inl (DatasetPreparationError
       ''Dataset preparation failed: Failed to load dataset wikitext: Connection refused'')"
proof -
  have "prepare_dataset offline_env ''wikitext'' ''gpt2'' 8 None 4 None =
      Inl (DatasetPreparationError (''Dataset preparation failed: '' @
        str_exn (DatasetPreparationError
          ''Failed to load dataset wikitext: Connection refused'')))"
    using outer_boundary_wraps_every_failure
      [of offline_env "''wikitext''" "''gpt2''" 8 None 4 None] offline_body
    by blast
  then show ?thesis by (simp add: offline_body)
qed

text \<open>
  A \<^verbatim>\<open>DatasetPreparationError\<close> raised at the load does not pass the outer boundary
  unchanged.
\<close>
theorem preparation_error_rewrapped_counterexample:
  "prepare_dataset_body offline_env ''wikitext'' ''gpt2'' 8 None 4 None =
     Inl (DatasetPreparationError ''Failed to load dataset wikitext: Connection refused'') \<and>
   prepare_dataset offline_env ''wikitext'' ''gpt2'' 8 None 4 None \<noteq>
     Inl (DatasetPreparationError ''Failed to load dataset wikitext: Connection refused'')"
  by (simp add: prepare_dataset_def offline_body)

text \<open>
  Claim C2. Without a supplied \<^verbatim>\<open>text_column\<close>, detection scans the candidate list
  \<^verbatim>\<open>['text', 'content', 'input_text', 'sentence', 'document']\<close> in this order against
  the column names of the train split and selects the first candidate that occurs among
  them; whenever the train split has a column \<^verbatim>\<open>text\<close>, it selects
  \<^verbatim>\<open>text\<close>, whatever other candidates occur.
\<close>
theorem detection_prefers_first_candidate:
  assumes "map_of dataset ''train'' = Some train"
  shows "possible_columns = [''text'', ''content'', ''input_text'', ''sentence'', ''document''] \<and>
         (\<forall>pre c post. possible_columns = pre @ c # post \<and>
              (\<forall>p \<in> set pre. p \<notin> set (column_names train)) \<and> c \<in> set (column_names train)
              \<longrightarrow> resolve_text_column dataset None = Inr c) \<and>
         (''text'' \<in> set (column_names train) \<longrightarrow> resolve_text_column dataset None = Inr ''text'')"
proof (intro conjI allI impI)
  show "possible_columns = [''text'', ''content'', ''input_text'', ''sentence'', ''document'']"
    by (simp add: possible_columns_def)
next
  fix pre c post
  assume h: "possible_columns = pre @ c # post \<and>
      (\<forall>p \<in> set pre. p \<notin> set (column_names train)) \<and> c \<in> set (column_names train)"
  then have "find (\<lambda>col. col \<in> set (column_names train)) possible_columns = Some c"
    using find_first_present [of possible_columns pre c post
        "\<lambda>col. col \<in> set (column_names train)"] by blast
  then show "resolve_text_column dataset None = Inr c"
    using assms by (rule resolve_candidate [rotated])
next
  assume "''text'' \<in> set (column_names train)"
  then have "find (\<lambda>col. col \<in> set (column_names train)) possible_columns = Some ''text''"
    by (simp add: possible_columns_def)
  then show "resolve_text_column dataset None = Inr ''text''"
    using assms by (rule resolve_candidate [rotated])
qed

theorem detection_prefers_first_candidate_witness:
  "map_of text_dataset ''train'' = Some text_train \<and>
   column_names text_train = [''label'', ''content'', ''text''] \<and>
   resolve_text_column text_dataset None = Inr ''text''"
  using detection_prefers_first_candidate [of text_dataset text_train]
  by (simp add: text_dataset_def text_train_def)

text \<open>
  Claim C3. Without a supplied \<^verbatim>\<open>text_column\<close> and with no candidate among the
  column names of the train split, detection goes through the column names in their
  declared order and selects the first one whose value in the first train record is a
  string; with a string-valued column \<^verbatim>\<open>foo\<close> and an integer column
  \<^verbatim>\<open>bar\<close> it selects \<^verbatim>\<open>foo\<close>.
\<close>
theorem detection_falls_back_to_first_string_column:
  assumes "map_of dataset ''train'' = Some train"
      and "rows train = r # rs"
      and "\<forall>p \<in> set possible_columns. p \<notin> set (column_names train)"
  shows "(\<forall>pre c post. column_names train = pre @ c # post \<and>
              (\<forall>p \<in> set pre. \<not> is_str (row_get r p)) \<and> is_str (row_get r c)
              \<longrightarrow> resolve_text_column dataset None = Inr c) \<and>
         (set (column_names train) = {''foo'', ''bar''} \<and> is_str (row_get r ''foo'') \<and>
              \<not> is_str (row_get r ''bar'')
              \<longrightarrow> resolve_text_column dataset None = Inr ''foo'')"
proof -
  have res: "resolve_text_column dataset None =
      (case find (\<lambda>c. is_str (row_get r c)) (column_names train) of
         None \<Rightarrow> Inl (DatasetPreparationError
             (''Could not detect text column. Available columns: '' @
              repr_list (column_names train)))
       | Some c \<Rightarrow> Inr c)"
    using resolve_no_candidate [OF assms(1) assms(3)]
      first_string_column_find [OF assms(1) assms(2), of "column_names train"]
    by simp
  show ?thesis
  proof (intro conjI allI impI)
    fix pre c post
    assume "column_names train = pre @ c # post \<and>
        (\<forall>p \<in> set pre. \<not> is_str (row_get r p)) \<and> is_str (row_get r c)"
    then have "find (\<lambda>c. is_str (row_get r c)) (column_names train) = Some c"
      using find_first_present [of "column_names train" pre c post
          "\<lambda>c. is_str (row_get r c)"] by blast
    then show "resolve_text_column dataset None = Inr c"
      by (simp add: res)
  next
    assume h: "set (column_names train) = {''foo'', ''bar''} \<and> is_str (row_get r ''foo'') \<and>
        \<not> is_str (row_get r ''bar'')"
    have "find (\<lambda>c. is_str (row_get r c)) (column_names train) = Some ''foo''"
    proof (rule find_unique)
      show "''foo'' \<in> set (column_names train)" using h by simp
      show "is_str (row_get r ''foo'')" using h by simp
      show "\<forall>y \<in> set (column_names train). is_str (row_get r y) \<longrightarrow> y = ''foo''"
      proof (intro ballI impI)
        fix y assume "y \<in> set (column_names train)" and s: "is_str (row_get r y)"
        then have "y \<in> {''foo'', ''bar''}" using h by simp
        then have "y = ''foo'' \<or> y = ''bar''" by blast
        then show "y = ''foo''" using h s by blast
      qed
    qed
    then show "resolve_text_column dataset None = Inr ''foo''"
      by (simp add: res)
  qed
qed

theorem detection_falls_back_to_first_string_column_witness:
  "map_of foo_bar_dataset ''train'' = Some foo_bar_train \<and>
   column_names foo_bar_train = [''bar'', ''foo''] \<and>
   rows foo_bar_train = [[(''bar'', PInt 7), (''foo'', PStr ''hello'')]] \<and>
   resolve_text_column foo_bar_dataset None = Inr ''foo''"
  using detection_falls_back_to_first_string_column
    [of foo_bar_dataset foo_bar_train "[(''bar'', PInt 7), (''foo'', PStr ''hello'')]" "[]"]
  by (simp add: foo_bar_dataset_def foo_bar_train_def possible_columns_def row_get_def
        insert_commute)


text \<open>
  Claim C4. Without a supplied \<^verbatim>\<open>text_column\<close>, with no candidate among the column
  names of the train split and no column whose value in the first train record is a string,
  \<^verbatim>\<open>prepare_dataset\<close> raises a \<^verbatim>\<open>DatasetPreparationError\<close> whose message
  ends with the rendered list of all the column names of the train split; no column is
  guessed.
\<close>
theorem no_string_column_fails_closed:
  assumes "from_pretrained E tn = Inr t0"
      and "load_dataset E dn cd = Inr dataset"
      and "map_of dataset ''train'' = Some train"
      and "\<forall>p \<in> set possible_columns. p \<notin> set (column_names train)"
      and "\<forall>c \<in> set (column_names train).
             \<exists>r rs. rows train = r # rs \<and> \<not> is_str (row_get r c)"
  shows "resolve_text_column dataset None =
           Inl (DatasetPreparationError
                  (''Could not detect text column. Available columns: '' @
                   repr_list (column_names train))) \<and>
         prepare_dataset E dn tn ml cd np None =
           Inl (DatasetPreparationError
                  (''Dataset preparation failed: '' @
                   ''Could not detect text column. Available columns: '' @
                   repr_list (column_names train)))"
proof -
  have res: "resolve_text_column dataset None =
      Inl (DatasetPreparationError
             (''Could not detect text column. Available columns: '' @
              repr_list (column_names train)))"
    using resolve_no_candidate [OF assms(3) assms(4)]
      first_string_column_none [OF assms(3) assms(5)]
    by simp
  then have "prepare_dataset_body E dn tn ml cd np None =
      Inl (DatasetPreparationError
             (''Could not detect text column. Available columns: '' @
              repr_list (column_names train)))"
    by (simp add: body_after_load [OF assms(1) assms(2)])
  then show ?thesis
    using res prepare_dataset_of_body_error by fastforce
qed

theorem no_string_column_fails_closed_witness:
  "map_of numeric_dataset ''train'' = Some numeric_train \<and>
   column_names numeric_train = [''x'', ''y''] \<and>
   prepare_dataset (example_env numeric_dataset) ''numbers'' ''gpt2'' 8 None 4 None =
     Inl (DatasetPreparationError
       (''Dataset preparation failed: Could not detect text column. Available columns: '' @
        ''['' @ [CHR 0x27] @ ''x'' @ [CHR 0x27] @ '', '' @ [CHR 0x27] @ ''y'' @ [CHR 0x27] @
        '']''))"
proof -
  have tok: "from_pretrained (example_env numeric_dataset) ''gpt2'' = Inr example_tokenizer"
    and load: "load_dataset (example_env numeric_dataset) ''numbers'' None = Inr numeric_dataset"
    by (simp_all add: example_env_def)
  have train: "map_of numeric_dataset ''train'' = Some numeric_train"
    by (simp add: numeric_dataset_def)
  have cols: "column_names numeric_train = [''x'', ''y'']"
    by (simp add: numeric_train_def)
  have nocand: "\<forall>p \<in> set possible_columns. p \<notin> set (column_names numeric_train)"
    by (simp add: cols possible_columns_def)
  have "rows numeric_train = [(''x'', PInt 1), (''y'', PList [PInt 2, PInt 3])] # []"
    by (simp add: numeric_train_def)
  then have nostr: "\<forall>c \<in> set (column_names numeric_train).
      \<exists>r rs. rows numeric_train = r # rs \<and> \<not> is_str (row_get r c)"
    by (simp add: cols row_get_def)
  have "prepare_dataset (example_env numeric_dataset) ''numbers'' ''gpt2'' 8 None 4 None =
      Inl (DatasetPreparationError
             (''Dataset preparation failed: '' @
              ''Could not detect text column. Available columns: '' @
              repr_list (column_names numeric_train)))"
    using no_string_column_fails_closed [OF tok load train nocand nostr] by blast
  moreover have "repr_list (column_names numeric_train) =
      ''['' @ [CHR 0x27] @ ''x'' @ [CHR 0x27] @ '', '' @ [CHR 0x27] @ ''y'' @ [CHR 0x27] @ '']''"
    by (simp add: cols repr_list_def repr_str_def repr_char_def py_printable_def Let_def)
  ultimately show ?thesis
    using train cols by simp
qed



text \<open>
  Claim C7. Whatever exception the load of the raw dataset raises, it is caught at the call
  and raised again as a \<^verbatim>\<open>DatasetPreparationError\<close> whose message holds the dataset
  identifier and the text of the original exception; the message the caller receives holds
  both as well.
\<close>
theorem load_failure_names_dataset_and_cause:
  assumes "from_pretrained E tn = Inr t0"
      and "load_dataset E dn cd = Inl e"
  shows "load_raw_dataset E dn cd =
           Inl (DatasetPreparationError
                  (''Failed to load dataset '' @ dn @ '': '' @ str_exn e)) \<and>
         prepare_dataset E dn tn ml cd np tc =
           Inl (DatasetPreparationError
                  (''Dataset preparation failed: '' @
                   ''Failed to load dataset '' @ dn @ '': '' @ str_exn e))"
proof -
  have load: "load_raw_dataset E dn cd =
      Inl (DatasetPreparationError (''Failed to load dataset '' @ dn @ '': '' @ str_exn e))"
    using assms(2) by (simp add: load_raw_dataset_def)
  then have "prepare_dataset_body E dn tn ml cd np tc =
      Inl (DatasetPreparationError (''Failed to load dataset '' @ dn @ '': '' @ str_exn e))"
    using assms(1) by (simp add: prepare_dataset_body_def Let_def)
  then have "prepare_dataset E dn tn ml cd np tc =
      Inl (DatasetPreparationError
             (''Dataset preparation failed: '' @
              ''Failed to load dataset '' @ dn @ '': '' @ str_exn e))"
    using prepare_dataset_of_body_error by fastforce
  then show ?thesis using load by simp
qed

theorem load_failure_names_dataset_and_cause_witness:
  "from_pretrained offline_env ''gpt2'' = Inr example_tokenizer \<and>
   load_dataset offline_env ''squad'' (Some ''/tmp/cache'') =
     Inl (OtherError ''Connection refused'') \<and>
   prepare_dataset offline_env ''squad'' ''gpt2'' 16 (Some ''/tmp/cache'') 2 (Some ''context'') =
     Inl (DatasetPreparationError
       ''Dataset preparation failed: Failed to load dataset squad: Connection refused'')"
  using load_failure_names_dataset_and_cause
    [of offline_env "''gpt2''" example_tokenizer "''squad''" "Some ''/tmp/cache''"
        "OtherError ''Connection refused''" 16 2 "Some ''context''"]
  by (simp add: offline_env_def)


lemma tokenize_dataset_steps:
  assumes "tokenize_dataset E t column ml np dataset = Inr tokenized"
  shows "\<exists>train. map_of dataset ''train'' = Some train \<and>
           dataset_dict_map (tokenize_function E t column ml) np
             (if column \<in> set (column_names train) then Some [column] else None) dataset =
           Inr tokenized"
  using assms
  by (auto simp add: tokenize_dataset_def remove_columns_of_def get_split_def
        split: option.splits sum.splits)

text \<open>
  Claim C8. In a successful preparation the train split of the tokenized dataset is wrapped
  with the mask-token id and the pad-token id of the returned tokenizer. The second
  component of the result is the validation split of the tokenized dataset wrapped with the
  same two ids when there is one, and \<^verbatim>\<open>None\<close> otherwise; the tokenized dataset has
  a validation split exactly when the raw dataset has one.
\<close>
theorem validation_wrapped_like_train_or_absent:
  assumes "prepare_dataset E dn tn ml cd np tc = Inr (train_dataset, val_dataset, tokenizer)"
  shows "\<exists>dataset column tokenized train.
           load_dataset E dn cd = Inr dataset \<and>
           resolve_text_column dataset tc = Inr column \<and>
           tokenize_dataset E tokenizer column ml np dataset = Inr tokenized \<and>
           map_of tokenized ''train'' = Some train \<and>
           train_dataset =
             PYTORCH_Dataset train (mask_token_id tokenizer) (pad_token_id tokenizer) \<and>
           val_dataset =
             (case map_of tokenized ''validation'' of
                None \<Rightarrow> None
              | Some v \<Rightarrow>
                  Some (PYTORCH_Dataset v (mask_token_id tokenizer)
                          (pad_token_id tokenizer))) \<and>
           (map_of dataset ''validation'' = None \<longrightarrow> val_dataset = None) \<and>
           (map_of dataset ''validation'' \<noteq> None \<longrightarrow> val_dataset \<noteq> None)"
proof -
  from assms have "prepare_dataset_body E dn tn ml cd np tc =
      Inr (train_dataset, val_dataset, tokenizer)"
    by (rule prepare_dataset_result_body)
  then obtain t0 dataset column tokenized where
    st: "load_dataset E dn cd = Inr dataset"
        "resolve_text_column dataset tc = Inr column"
        "tokenize_dataset E (ensure_special_tokens t0) column ml np dataset = Inr tokenized"
        "assemble tokenized (ensure_special_tokens t0) =
           Inr (train_dataset, val_dataset, tokenizer)"
    using body_result_steps by blast
  from assemble_result [OF st(4)] obtain train where
    asm: "tokenizer = ensure_special_tokens t0"
         "map_of tokenized ''train'' = Some train"
         "train_dataset =
            PYTORCH_Dataset train (mask_token_id tokenizer) (pad_token_id tokenizer)"
         "val_dataset =
            (case map_of tokenized ''validation'' of
               None \<Rightarrow> None
             | Some v \<Rightarrow>
                 Some (PYTORCH_Dataset v (mask_token_id tokenizer) (pad_token_id tokenizer)))"
    by auto
  from tokenize_dataset_steps [OF st(3)] obtain rc where
    mapped: "dataset_dict_map (tokenize_function E (ensure_special_tokens t0) column ml) np rc
               dataset = Inr tokenized"
    by blast
  have absent: "map_of dataset ''validation'' = None \<longrightarrow> val_dataset = None"
  proof
    assume "map_of dataset ''validation'' = None"
    from dataset_dict_map_lookup_none [OF mapped this] show "val_dataset = None"
      using asm(4) by simp
  qed
  have present: "map_of dataset ''validation'' \<noteq> None \<longrightarrow> val_dataset \<noteq> None"
  proof
    assume "map_of dataset ''validation'' \<noteq> None"
    then obtain v where "map_of dataset ''validation'' = Some v" by auto
    from dataset_dict_map_lookup_some [OF mapped this]
    obtain v' where "map_of tokenized ''validation'' = Some v'" by blast
    then show "val_dataset \<noteq> None" using asm(4) by simp
  qed
  note tokenized = st(3) [folded asm(1)]
  show ?thesis
    apply (rule exI [of _ dataset], rule exI [of _ column])
    apply (rule exI [of _ tokenized], rule exI [of _ train])
    apply (intro conjI)
           apply (rule st(1))
          apply (rule st(2))
         apply (rule tokenized)
        apply (rule asm(2))
       apply (rule asm(3))
      apply (rule asm(4))
     apply (rule absent)
    apply (rule present)
    done
qed

lemma text_dataset_run:
  "prepare_dataset (example_env text_dataset) ''imdb'' ''gpt2'' 2 None 4 None =
     Inr (PYTORCH_Dataset
            \<lparr>column_names = [''label'', ''content'', ''input_ids'', ''attention_mask''],
             rows = [[(''label'', PInt 1), (''content'', PStr ''c''),
                      (''input_ids'', PList [PInt 0, PInt 0]),
                      (''attention_mask'', PList [PInt 1, PInt 1])],
                     [(''label'', PInt 0), (''content'', PStr ''d''),
                      (''input_ids'', PList [PInt 0, PInt 0]),
                      (''attention_mask'', PList [PInt 1, PInt 1])]]\<rparr>
            (Some 3) (Some 4),
          Some (PYTORCH_Dataset
            \<lparr>column_names = [''label'', ''content'', ''input_ids'', ''attention_mask''],
             rows = [[(''label'', PInt 1), (''content'', PStr ''e''),
                      (''input_ids'', PList [PInt 0, PInt 0]),
                      (''attention_mask'', PList [PInt 1, PInt 1])]]\<rparr>
            (Some 3) (Some 4)),
          \<lparr>mask_token = Some ''[MASK]'', pad_token = Some ''[PAD]'', unk_token = Some ''<unk>'',
           vocab = [(''a'', 0), (''b'', 1), (''<unk>'', 2), (''[MASK]'', 3), (''[PAD]'', 4)]\<rparr>)"
  by code_simp

lemma plain_dataset_run:
  "prepare_dataset (example_env plain_dataset) ''plain'' ''gpt2'' 2 None 4 None =
     Inr (PYTORCH_Dataset
            \<lparr>column_names = [''input_ids'', ''attention_mask''],
             rows = [[(''input_ids'', PList [PInt 0, PInt 0]),
                      (''attention_mask'', PList [PInt 1, PInt 1])],
                     [(''input_ids'', PList [PInt 0, PInt 0]),
                      (''attention_mask'', PList [PInt 1, PInt 1])]]\<rparr>
            (Some 3) (Some 4),
          None,
          \<lparr>mask_token = Some ''[MASK]'', pad_token = Some ''[PAD]'', unk_token = Some ''<unk>'',
           vocab = [(''a'', 0), (''b'', 1), (''<unk>'', 2), (''[MASK]'', 3), (''[PAD]'', 4)]\<rparr>)"
  by code_simp


theorem validation_wrapped_like_train_or_absent_witness:
  "map_of plain_dataset ''validation'' = None \<and>
   load_dataset (example_env plain_dataset) ''plain'' None = Inr plain_dataset \<and>
   prepare_dataset (example_env plain_dataset) ''plain'' ''gpt2'' 2 None 4 None =
     Inr (PYTORCH_Dataset
            \<lparr>column_names = [''input_ids'', ''attention_mask''],
             rows = [[(''input_ids'', PList [PInt 0, PInt 0]),
                      (''attention_mask'', PList [PInt 1, PInt 1])],
                     [(''input_ids'', PList [PInt 0, PInt 0]),
                      (''attention_mask'', PList [PInt 1, PInt 1])]]\<rparr>
            (Some 3) (Some 4),
          None,
          \<lparr>mask_token = Some ''[MASK]'', pad_token = Some ''[PAD]'', unk_token = Some ''<unk>'',
           vocab = [(''a'', 0), (''b'', 1), (''<unk>'', 2), (''[MASK]'', 3), (''[PAD]'', 4)]\<rparr>) \<and>
   map_of text_dataset ''validation'' = Some text_validation \<and>
   load_dataset (example_env text_dataset) ''imdb'' None = Inr text_dataset \<and>
   prepare_dataset (example_env text_dataset) ''imdb'' ''gpt2'' 2 None 4 None =
     Inr (PYTORCH_Dataset
            \<lparr>column_names = [''label'', ''content'', ''input_ids'', ''attention_mask''],
             rows = [[(''label'', PInt 1), (''content'', PStr ''c''),
                      (''input_ids'', PList [PInt 0, PInt 0]),
                      (''attention_mask'', PList [PInt 1, PInt 1])],
                     [(''label'', PInt 0), (''content'', PStr ''d''),
                      (''input_ids'', PList [PInt 0, PInt 0]),
                      (''attention_mask'', PList [PInt 1, PInt 1])]]\<rparr>
            (Some 3) (Some 4),
          Some (PYTORCH_Dataset
            \<lparr>column_names = [''label'', ''content'', ''input_ids'', ''attention_mask''],
             rows = [[(''label'', PInt 1), (''content'', PStr ''e''),
                      (''input_ids'', PList [PInt 0, PInt 0]),
                      (''attention_mask'', PList [PInt 1, PInt 1])]]\<rparr>
            (Some 3) (Some 4)),
          \<lparr>mask_token = Some ''[MASK]'', pad_token = Some ''[PAD]'', unk_token = Some ''<unk>'',
           vocab = [(''a'', 0), (''b'', 1), (''<unk>'', 2), (''[MASK]'', 3), (''[PAD]'', 4)]\<rparr>)"
proof -
  from validation_wrapped_like_train_or_absent [OF plain_dataset_run]
  obtain dataset where "load_dataset (example_env plain_dataset) ''plain'' None = Inr dataset"
    by blast
  then have plain: "load_dataset (example_env plain_dataset) ''plain'' None = Inr plain_dataset"
    by (simp add: example_env_def)
  from validation_wrapped_like_train_or_absent [OF text_dataset_run]
  obtain dataset' where "load_dataset (example_env text_dataset) ''imdb'' None = Inr dataset'"
    by blast
  then have imdb: "load_dataset (example_env text_dataset) ''imdb'' None = Inr text_dataset"
    by (simp add: example_env_def)
  have "map_of plain_dataset ''validation'' = None"
    by (simp add: plain_dataset_def)
  moreover have "map_of text_dataset ''validation'' = Some text_validation"
    by (simp add: text_dataset_def)
  ultimately show ?thesis
    using plain imdb plain_dataset_run text_dataset_run by simp
qed

lemma split_map_without_removal_keeps_columns:
  assumes "split_map f np None s = Inr s'" and "c \<in> set (column_names s)"
  shows "c \<in> set (column_names s')"
proof (cases "rows s = []")
  case True
  then show ?thesis
    using assms by (auto simp add: split_map_def split: if_splits)
next
  case False
  then obtain enc where "s' = merge_batch s [] enc"
    using assms(1) by (auto simp add: split_map_def Let_def split: if_splits sum.splits)
  then show ?thesis
    using assms(2) by (simp add: merge_batch_def Let_def)
qed

lemma split_map_removal_drops_column:
  assumes "split_map f np (Some [column]) s = Inr s'"
      and "column \<in> set (column_names s')"
  shows "rows s \<noteq> [] \<and> (\<exists>enc. f s = Inr enc \<and> column \<in> set (map fst enc))"
proof (cases "rows s = []")
  case True
  then have "column \<notin> set (column_names s')"
    using assms(1)
    by (auto simp add: split_map_def remove_columns_split_def split: if_splits)
  then show ?thesis using assms(2) by simp
next
  case False
  then obtain enc where enc: "f s = Inr enc" "s' = merge_batch s [column] enc"
    using assms(1) by (auto simp add: split_map_def Let_def split: if_splits sum.splits)
  have "column \<in> set (map fst enc)"
    using assms(2) by (auto simp add: enc(2) merge_batch_def Let_def)
  then show ?thesis using False enc(1) by blast
qed

lemma tokenize_dataset_with_train:
  assumes "map_of dataset ''train'' = Some train"
  shows "tokenize_dataset E t column ml np dataset =
           dataset_dict_map (tokenize_function E t column ml) np
             (if column \<in> set (column_names train) then Some [column] else None) dataset"
  using get_split_found [OF assms]
  by (simp add: tokenize_dataset_def remove_columns_of_def)

text \<open>
  Claim C9, as the code has it. The resolved text column is named to the map as the one
  column to remove exactly when it occurs among the column names of the raw train split, a
  check made on the raw dataset before the map runs and on the train split only; otherwise
  nothing is named. This value is the \<^verbatim>\<open>remove_columns\<close> argument of the one map of
  the preparation, applied to every split. Every other column of a raw split is still a
  column of the tokenized split; when no removal is asked, every column is; and when the
  removal is asked, a column of that name in the output is one the tokenizer returned.
\<close>
theorem only_text_column_removed:
  assumes "map_of dataset ''train'' = Some train"
  shows "remove_columns_of dataset column =
           Inr (if column \<in> set (column_names train) then Some [column] else None) \<and>
         (\<forall>tokenized name s.
            tokenize_dataset E t column ml np dataset = Inr tokenized \<and>
            map_of dataset name = Some s \<longrightarrow>
            (\<exists>s'. map_of tokenized name = Some s' \<and>
                  (\<forall>c \<in> set (column_names s). c \<noteq> column \<longrightarrow> c \<in> set (column_names s')))) \<and>
         tokenize_dataset E t column ml np dataset =
           dataset_dict_map (tokenize_function E t column ml) np
             (if column \<in> set (column_names train) then Some [column] else None) dataset \<and>
         (\<forall>dn tn cd tc t0.
            from_pretrained E tn = Inr t0 \<and> load_dataset E dn cd = Inr dataset \<and>
            resolve_text_column dataset tc = Inr column \<longrightarrow>
            prepare_dataset_body E dn tn ml cd np tc =
              (case dataset_dict_map
                      (tokenize_function E (ensure_special_tokens t0) column ml) np
                      (if column \<in> set (column_names train) then Some [column] else None)
                      dataset of
                 Inl e \<Rightarrow> Inl e
               | Inr tokenized \<Rightarrow> assemble tokenized (ensure_special_tokens t0))) \<and>
         (\<forall>tokenized name s.
            tokenize_dataset E t column ml np dataset = Inr tokenized \<and>
            map_of dataset name = Some s \<longrightarrow>
            (\<exists>s'. map_of tokenized name = Some s' \<and>
                  split_map (tokenize_function E t column ml) np
                    (if column \<in> set (column_names train) then Some [column] else None) s =
                    Inr s' \<and>
                  (column \<notin> set (column_names train) \<longrightarrow>
                     (\<forall>c \<in> set (column_names s). c \<in> set (column_names s'))) \<and>
                  (column \<in> set (column_names train) \<and> column \<in> set (column_names s') \<longrightarrow>
                     rows s \<noteq> [] \<and>
                     (\<exists>enc. tokenize_function E t column ml s = Inr enc \<and>
                            column \<in> set (map fst enc)))))"
proof -
  define rc where "rc = (if column \<in> set (column_names train) then Some [column] else None)"
  have rc: "rc = None \<or> rc = Some [column]"
    by (simp add: rc_def)
  have requested: "remove_columns_of dataset column = Inr rc"
    using get_split_found [OF assms] by (simp add: remove_columns_of_def rc_def)
  have handed: "tokenize_dataset E t' column ml np dataset =
      dataset_dict_map (tokenize_function E t' column ml) np rc dataset" for t'
    using tokenize_dataset_with_train [OF assms] by (simp add: rc_def)
  have body: "\<forall>dn tn cd tc t0.
      from_pretrained E tn = Inr t0 \<and> load_dataset E dn cd = Inr dataset \<and>
      resolve_text_column dataset tc = Inr column \<longrightarrow>
      prepare_dataset_body E dn tn ml cd np tc =
        (case dataset_dict_map (tokenize_function E (ensure_special_tokens t0) column ml) np
                rc dataset of
           Inl e \<Rightarrow> Inl e
         | Inr tokenized \<Rightarrow> assemble tokenized (ensure_special_tokens t0))"
  proof (intro allI impI)
    fix dn tn cd tc t0
    assume h: "from_pretrained E tn = Inr t0 \<and> load_dataset E dn cd = Inr dataset \<and>
        resolve_text_column dataset tc = Inr column"
    then have "prepare_dataset_body E dn tn ml cd np tc =
        (case tokenize_dataset E (ensure_special_tokens t0) column ml np dataset of
           Inl e \<Rightarrow> Inl e
         | Inr tokenized \<Rightarrow> assemble tokenized (ensure_special_tokens t0))"
      using body_after_load [of E tn t0 dn cd dataset ml np tc] by simp
    then show "prepare_dataset_body E dn tn ml cd np tc =
        (case dataset_dict_map (tokenize_function E (ensure_special_tokens t0) column ml) np
                rc dataset of
           Inl e \<Rightarrow> Inl e
         | Inr tokenized \<Rightarrow> assemble tokenized (ensure_special_tokens t0))"
      by (simp add: handed)
  qed
  have splits: "\<exists>s'. map_of tokenized name = Some s' \<and>
        split_map (tokenize_function E t column ml) np rc s = Inr s' \<and>
        (\<forall>c \<in> set (column_names s). c \<noteq> column \<longrightarrow> c \<in> set (column_names s')) \<and>
        (column \<notin> set (column_names train) \<longrightarrow>
           (\<forall>c \<in> set (column_names s). c \<in> set (column_names s'))) \<and>
        (column \<in> set (column_names train) \<and> column \<in> set (column_names s') \<longrightarrow>
           rows s \<noteq> [] \<and>
           (\<exists>enc. tokenize_function E t column ml s = Inr enc \<and>
                  column \<in> set (map fst enc)))"
    if h: "tokenize_dataset E t column ml np dataset = Inr tokenized \<and>
        map_of dataset name = Some s"
    for tokenized name s
  proof -
    have mapped: "dataset_dict_map (tokenize_function E t column ml) np rc dataset =
        Inr tokenized"
      using h handed [of t] by simp
    from dataset_dict_map_lookup_some [OF mapped] h obtain s' where
      s': "split_map (tokenize_function E t column ml) np rc s = Inr s'"
          "map_of tokenized name = Some s'"
      by blast
    have others: "\<forall>c \<in> set (column_names s). c \<noteq> column \<longrightarrow> c \<in> set (column_names s')"
      using split_map_keeps_other_columns [OF s'(1) rc] by blast
    have all: "column \<notin> set (column_names train) \<longrightarrow>
        (\<forall>c \<in> set (column_names s). c \<in> set (column_names s'))"
    proof
      assume "column \<notin> set (column_names train)"
      then have "rc = None" by (simp add: rc_def)
      then have "split_map (tokenize_function E t column ml) np None s = Inr s'"
        using s'(1) by simp
      then show "\<forall>c \<in> set (column_names s). c \<in> set (column_names s')"
        using split_map_without_removal_keeps_columns by blast
    qed
    have dropped: "column \<in> set (column_names train) \<and> column \<in> set (column_names s') \<longrightarrow>
        rows s \<noteq> [] \<and>
        (\<exists>enc. tokenize_function E t column ml s = Inr enc \<and> column \<in> set (map fst enc))"
    proof
      assume a: "column \<in> set (column_names train) \<and> column \<in> set (column_names s')"
      then have "rc = Some [column]" by (simp add: rc_def)
      then have "split_map (tokenize_function E t column ml) np (Some [column]) s = Inr s'"
        using s'(1) by simp
      from split_map_removal_drops_column [OF this] a
      show "rows s \<noteq> [] \<and>
        (\<exists>enc. tokenize_function E t column ml s = Inr enc \<and> column \<in> set (map fst enc))"
        by blast
    qed
    show ?thesis
      using s' others all dropped by blast
  qed
  have part2: "\<forall>tokenized name s.
      tokenize_dataset E t column ml np dataset = Inr tokenized \<and>
      map_of dataset name = Some s \<longrightarrow>
      (\<exists>s'. map_of tokenized name = Some s' \<and>
            (\<forall>c \<in> set (column_names s). c \<noteq> column \<longrightarrow> c \<in> set (column_names s')))"
    using splits by blast
  have part5: "\<forall>tokenized name s.
      tokenize_dataset E t column ml np dataset = Inr tokenized \<and>
      map_of dataset name = Some s \<longrightarrow>
      (\<exists>s'. map_of tokenized name = Some s' \<and>
            split_map (tokenize_function E t column ml) np rc s = Inr s' \<and>
            (column \<notin> set (column_names train) \<longrightarrow>
               (\<forall>c \<in> set (column_names s). c \<in> set (column_names s'))) \<and>
            (column \<in> set (column_names train) \<and> column \<in> set (column_names s') \<longrightarrow>
               rows s \<noteq> [] \<and>
               (\<exists>enc. tokenize_function E t column ml s = Inr enc \<and>
                      column \<in> set (map fst enc))))"
    using splits by blast
  show ?thesis
    apply (intro conjI)
        apply (rule requested [unfolded rc_def])
       apply (rule part2)
      apply (rule handed [unfolded rc_def])
     apply (rule body [unfolded rc_def])
    apply (rule part5 [unfolded rc_def])
    done
qed

lemma text_dataset_tokenized:
  "tokenize_dataset (example_env text_dataset) example_tokenizer ''text'' 2 4 text_dataset =
     Inr [(''train'',
           \<lparr>column_names = [''label'', ''content'', ''input_ids'', ''attention_mask''],
            rows = [[(''label'', PInt 1), (''content'', PStr ''c''),
                     (''input_ids'', PList [PInt 0, PInt 0]),
                     (''attention_mask'', PList [PInt 1, PInt 1])],
                    [(''label'', PInt 0), (''content'', PStr ''d''),
                     (''input_ids'', PList [PInt 0, PInt 0]),
                     (''attention_mask'', PList [PInt 1, PInt 1])]]\<rparr>),
          (''validation'',
           \<lparr>column_names = [''label'', ''content'', ''input_ids'', ''attention_mask''],
            rows = [[(''label'', PInt 1), (''content'', PStr ''e''),
                     (''input_ids'', PList [PInt 0, PInt 0]),
                     (''attention_mask'', PList [PInt 1, PInt 1])]]\<rparr>)]"
  by code_simp

theorem only_text_column_removed_witness:
  "map_of text_dataset ''train'' = Some text_train \<and>
   map_of text_dataset ''validation'' = Some text_validation \<and>
   column_names text_validation = [''label'', ''content'', ''text''] \<and>
   remove_columns_of text_dataset ''text'' = Inr (Some [''text'']) \<and>
   remove_columns_of text_dataset ''body'' = Inr None \<and>
   tokenize_dataset (example_env header_only_dataset) example_tokenizer ''body'' 2 4
     header_only_dataset =
     dataset_dict_map
       (tokenize_function (example_env header_only_dataset) example_tokenizer ''body'' 2) 4
       None header_only_dataset \<and>
   tokenize_dataset (example_env header_only_dataset) example_tokenizer ''body'' 2 4
     header_only_dataset = Inr header_only_dataset \<and>
   tokenize_dataset (example_env text_dataset) example_tokenizer ''text'' 2 4 text_dataset =
     dataset_dict_map
       (tokenize_function (example_env text_dataset) example_tokenizer ''text'' 2) 4
       (Some [''text'']) text_dataset \<and>
   tokenize_dataset (example_env text_dataset) example_tokenizer ''text'' 2 4 text_dataset =
     Inr [(''train'',
           \<lparr>column_names = [''label'', ''content'', ''input_ids'', ''attention_mask''],
            rows = [[(''label'', PInt 1), (''content'', PStr ''c''),
                     (''input_ids'', PList [PInt 0, PInt 0]),
                     (''attention_mask'', PList [PInt 1, PInt 1])],
                    [(''label'', PInt 0), (''content'', PStr ''d''),
                     (''input_ids'', PList [PInt 0, PInt 0]),
                     (''attention_mask'', PList [PInt 1, PInt 1])]]\<rparr>),
          (''validation'',
           \<lparr>column_names = [''label'', ''content'', ''input_ids'', ''attention_mask''],
            rows = [[(''label'', PInt 1), (''content'', PStr ''e''),
                     (''input_ids'', PList [PInt 0, PInt 0]),
                     (''attention_mask'', PList [PInt 1, PInt 1])]]\<rparr>)]"
proof -
  have train: "map_of text_dataset ''train'' = Some text_train"
    and val: "map_of text_dataset ''validation'' = Some text_validation"
    by (simp_all add: text_dataset_def)
  note removal = only_text_column_removed [OF train]
  have "remove_columns_of text_dataset ''text'' = Inr (Some [''text''])"
    using removal [of "''text''"] by (simp add: text_train_def)
  moreover have "remove_columns_of text_dataset ''body'' = Inr None"
    using removal [of "''body''"] by (simp add: text_train_def)
  moreover have "column_names text_validation = [''label'', ''content'', ''text'']"
    by (simp add: text_validation_def)
  moreover have "tokenize_dataset (example_env text_dataset) example_tokenizer ''text'' 2 4
      text_dataset =
    dataset_dict_map
      (tokenize_function (example_env text_dataset) example_tokenizer ''text'' 2) 4
      (Some [''text'']) text_dataset"
    using removal [of "''text''" "example_env text_dataset" example_tokenizer 2 4]
    by (simp add: text_train_def)
  moreover have "tokenize_dataset (example_env header_only_dataset) example_tokenizer
      ''body'' 2 4 header_only_dataset =
    dataset_dict_map
      (tokenize_function (example_env header_only_dataset) example_tokenizer ''body'' 2) 4
      None header_only_dataset"
  proof -
    have header: "map_of header_only_dataset ''train'' =
        Some \<lparr>column_names = [''text''], rows = []\<rparr>"
      by (simp add: header_only_dataset_def)
    show ?thesis
      using only_text_column_removed [OF header, of "''body''"
          "example_env header_only_dataset" example_tokenizer 2 4]
      by simp
  qed
  moreover have "tokenize_dataset (example_env header_only_dataset) example_tokenizer
      ''body'' 2 4 header_only_dataset = Inr header_only_dataset"
    by code_simp
  ultimately show ?thesis
    using train val text_dataset_tokenized by simp
qed

text \<open>
  A dataset whose train split has the column \<^verbatim>\<open>text\<close> and whose validation split
  does not. Line 105 names the column for removal from the raw train split alone, before
  the map. The map itself drops the column from the train split, whose output no longer has
  it, and nothing looks at the output afterwards; the same removal is asked of the
  validation split, where the column is not present, and the library refuses it.
\<close>

theorem removal_decided_before_map_counterexample:
  "remove_columns_of mixed_dataset ''text'' = Inr (Some [''text'']) \<and>
   split_map (tokenize_function (example_env mixed_dataset) example_tokenizer ''text'' 2) 4
       (Some [''text''])
       \<lparr>column_names = [''text''], rows = [[(''text'', PStr ''a'')]]\<rparr> =
     Inr \<lparr>column_names = [''input_ids'', ''attention_mask''],
          rows = [[(''input_ids'', PList [PInt 0, PInt 0]),
                   (''attention_mask'', PList [PInt 1, PInt 1])]]\<rparr> \<and>
   ''text'' \<notin> set [''input_ids'', ''attention_mask''] \<and>
   map_of mixed_dataset ''validation'' =
     Some \<lparr>column_names = [''body''], rows = [[(''body'', PStr ''b'')]]\<rparr> \<and>
   ''text'' \<notin> set [''body''] \<and>
   prepare_dataset (example_env mixed_dataset) ''mixed'' ''gpt2'' 2 None 4 None =
     Inl (DatasetPreparationError
       (''Dataset preparation failed: Column to remove ['' @ [CHR 0x27] @ ''text'' @
        [CHR 0x27] @ ''] not in the dataset. Current columns in the dataset: ['' @
        [CHR 0x27] @ ''body'' @ [CHR 0x27] @ '']''))"
  by code_simp

text \<open>
  Claim C10. When the raw dataset loads and has no train split, \<^verbatim>\<open>prepare_dataset\<close>
  raises a \<^verbatim>\<open>DatasetPreparationError\<close>: detection fails on
  \<^verbatim>\<open>dataset['train']\<close> with a \<^verbatim>\<open>KeyError\<close>, a supplied column gets past
  detection and line 105 fails in the same way, and the outer boundary wraps the
  \<^verbatim>\<open>KeyError\<close>.
\<close>
theorem missing_train_split_raises:
  assumes "from_pretrained E tn = Inr t0"
      and "load_dataset E dn cd = Inr dataset"
      and "map_of dataset ''train'' = None"
  shows "resolve_text_column dataset None = Inl (KeyError ''train'') \<and>
         (\<forall>c. resolve_text_column dataset (Some c) = Inr c \<and>
              tokenize_dataset E t c ml np dataset = Inl (KeyError ''train'')) \<and>
         prepare_dataset E dn tn ml cd np tc =
           Inl (DatasetPreparationError
                  (''Dataset preparation failed: '' @ repr_str ''train''))"
proof -
  note missing = get_split_missing [OF assms(3)]
  have none: "resolve_text_column dataset None = Inl (KeyError ''train'')"
    using missing by (simp add: resolve_text_column_def)
  have some: "resolve_text_column dataset (Some c) = Inr c" for c
    by (simp add: resolve_text_column_def)
  have tok: "tokenize_dataset E' t' c ml np dataset = Inl (KeyError ''train'')" for E' t' c
    using missing by (simp add: tokenize_dataset_def remove_columns_of_def)
  have "prepare_dataset_body E dn tn ml cd np tc = Inl (KeyError ''train'')"
    using none some tok
    by (cases tc) (simp_all add: body_after_load [OF assms(1) assms(2)])
  then have "prepare_dataset E dn tn ml cd np tc =
      Inl (DatasetPreparationError (''Dataset preparation failed: '' @ repr_str ''train''))"
    using prepare_dataset_of_body_error by fastforce
  then show ?thesis
    using none some tok by simp
qed

theorem missing_train_split_raises_witness:
  "map_of test_only_dataset ''train'' = None \<and>
   prepare_dataset (example_env test_only_dataset) ''glue'' ''gpt2'' 8 None 4 None =
     Inl (DatasetPreparationError
       (''Dataset preparation failed: '' @ [CHR 0x27] @ ''train'' @ [CHR 0x27])) \<and>
   prepare_dataset (example_env test_only_dataset) ''glue'' ''gpt2'' 8 None 4 (Some ''text'') =
     Inl (DatasetPreparationError
       (''Dataset preparation failed: '' @ [CHR 0x27] @ ''train'' @ [CHR 0x27]))"
proof -
  have tok: "from_pretrained (example_env test_only_dataset) ''gpt2'' = Inr example_tokenizer"
    and load: "load_dataset (example_env test_only_dataset) ''glue'' None =
      Inr test_only_dataset"
    by (simp_all add: example_env_def)
  have train: "map_of test_only_dataset ''train'' = None"
    by (simp add: test_only_dataset_def)
  have repr: "repr_str ''train'' = [CHR 0x27] @ ''train'' @ [CHR 0x27]"
    by (simp add: repr_str_def repr_char_def py_printable_def Let_def)
  have "prepare_dataset (example_env test_only_dataset) ''glue'' ''gpt2'' 8 None 4 tc =
      Inl (DatasetPreparationError (''Dataset preparation failed: '' @ repr_str ''train''))"
    for tc
    using missing_train_split_raises [OF tok load train] by blast
  then show ?thesis
    using train repr by simp
qed

end
